theory Spec2Isabelle
  imports Complex_Main
begin

section \<open>Geometry shared by the canvas and the clip tracker\<close>

text \<open>
  \<open>Scalar\<close> is a C++ \<open>float\<close>. It is modelled by \<open>real\<close>: the functions below only
  compare scalars, take minima and maxima, and multiply an opacity by an alpha; NaN and
  the infinities are not represented.
\<close>

type_synonym Scalar = real

type_synonym Point = "Scalar \<times> Scalar"

record Rect =
  rect_left :: Scalar
  rect_top :: Scalar
  rect_right :: Scalar
  rect_bottom :: Scalar

text \<open>
  Modelled from the spec: the rectangle helpers of \<open>impeller/geometry/rect.h\<close>
  (\<open>IsEmpty\<close>, \<open>Intersection\<close>, \<open>Contains\<close>, \<open>MakeLTRB\<close>, \<open>MakeSize\<close>,
  \<open>MakeOriginSize\<close>), a header that is not among the sources.  A rectangle is a
  half-open box, empty unless left < right and top < bottom; the default rectangle
  \<open>DlRect()\<close> is all zeros; \<open>Intersection\<close> yields no value when the operands are
  disjoint (the coverage is then "set empty").
\<close>

definition MakeLTRB :: "Scalar \<Rightarrow> Scalar \<Rightarrow> Scalar \<Rightarrow> Scalar \<Rightarrow> Rect" where
  "MakeLTRB l t r b = \<lparr>rect_left = l, rect_top = t, rect_right = r, rect_bottom = b\<rparr>"

definition DlRect :: Rect where
  "DlRect = MakeLTRB 0 0 0 0"

definition IsEmpty :: "Rect \<Rightarrow> bool" where
  "IsEmpty r = (\<not> (rect_left r < rect_right r \<and> rect_top r < rect_bottom r))"

definition IntersectsWithRect :: "Rect \<Rightarrow> Rect \<Rightarrow> bool" where
  "IntersectsWithRect a b =
     (\<not> IsEmpty a \<and> \<not> IsEmpty b \<and>
      rect_left a < rect_right b \<and> rect_top a < rect_bottom b \<and>
      rect_right a > rect_left b \<and> rect_bottom a > rect_top b)"

definition Intersection :: "Rect \<Rightarrow> Rect \<Rightarrow> Rect option" where
  "Intersection a b =
     (if IntersectsWithRect a b
      then Some (MakeLTRB (max (rect_left a) (rect_left b)) (max (rect_top a) (rect_top b))
                          (min (rect_right a) (rect_right b)) (min (rect_bottom a) (rect_bottom b)))
      else None)"

definition value_or :: "'a option \<Rightarrow> 'a \<Rightarrow> 'a" where
  "value_or v d = (case v of None \<Rightarrow> d | Some x \<Rightarrow> x)"

definition Contains :: "Rect \<Rightarrow> Rect \<Rightarrow> bool" where
  "Contains a b =
     (IsEmpty b \<or>
      (\<not> IsEmpty a \<and> rect_left a \<le> rect_left b \<and> rect_top a \<le> rect_top b \<and>
       rect_right b \<le> rect_right a \<and> rect_bottom b \<le> rect_bottom a))"

definition ContainsPoint :: "Rect \<Rightarrow> Point \<Rightarrow> bool" where
  "ContainsPoint r p =
     (\<not> IsEmpty r \<and> rect_left r \<le> fst p \<and> rect_top r \<le> snd p \<and>
      fst p < rect_right r \<and> snd p < rect_bottom r)"

definition MakeOriginSize :: "Point \<Rightarrow> Scalar \<times> Scalar \<Rightarrow> Rect" where
  "MakeOriginSize origin sz =
     MakeLTRB (fst origin) (snd origin) (fst origin + fst sz) (snd origin + snd sz)"

definition MakeSize :: "Scalar \<times> Scalar \<Rightarrow> Rect" where
  "MakeSize sz = MakeLTRB 0 0 (fst sz) (snd sz)"

definition GetOrigin :: "Rect \<Rightarrow> Point" where
  "GetOrigin r = (rect_left r, rect_top r)"

text \<open>The set of points of a rectangle: what "coverage as a superset relation" compares.\<close>

definition rect_points :: "Rect \<Rightarrow> Point set" where
  "rect_points r = {p. ContainsPoint r p}"


section \<open>Canvas (impeller/display\_list/canvas.cc)\<close>

subsection \<open>Data\<close>

text \<open>
  Modelled from the spec: the enumerations and structs of \<open>canvas.h\<close>, \<open>entity.h\<close>,
  \<open>paint.h\<close> and \<open>color.h\<close>, headers that are not among the sources.  Of the blend
  modes, the code names \<open>kSource\<close> and \<open>kSourceOver\<close> and compares a mode with
  \<open>Entity::kLastPipelineBlendMode\<close>; the modes beyond that one are the "advanced" blends
  the fixed-function pipeline cannot do.  Depths are unbounded naturals; the root
  ceiling \<open>kMaxDepth\<close> is a parameter of \<open>Initialize\<close>.
\<close>

datatype BlendMode = kSource | kSourceOver | kOtherPipelineBlend nat | kAdvancedBlend nat

definition exceeds_kLastPipelineBlendMode :: "BlendMode \<Rightarrow> bool" where
  "exceeds_kLastPipelineBlendMode b = (case b of kAdvancedBlend _ \<Rightarrow> True | _ \<Rightarrow> False)"

datatype RenderingMode =
  kDirect | kSubpassAppendSnapshotTransform | kSubpassPrependSnapshotTransform

datatype ContentBoundsPromise = kUnknown | kContainsContents | kMayClipContents

record 'm CanvasStackEntry =
  transform :: 'm
  clip_depth :: nat
  clip_height :: nat
  num_clips :: nat
  distributed_opacity :: Scalar
  rendering_mode :: RenderingMode
  skipping :: bool
  did_round_out :: bool

record Paint =
  color_alpha :: Scalar
  blend_mode :: BlendMode
  image_filter :: bool
  color_filter :: bool

text \<open>
  Modelled from the spec: \<open>Paint::CanApplyOpacityPeephole\<close> (\<open>paint.h\<close> is not among
  the sources): "the paint only varies alpha (no blend-mode change, no image/color
  filter)".
\<close>

definition CanApplyOpacityPeephole :: "Paint \<Rightarrow> bool" where
  "CanApplyOpacityPeephole paint =
     (blend_mode paint = kSourceOver \<and> \<not> image_filter paint \<and> \<not> color_filter paint)"

text \<open>
  Contents are shared pointers to objects of the entity library.  The canvas wraps them
  (framebuffer blend, blend filter over a backdrop texture) and asks them \<open>IsOpaque\<close>;
  everything else about them is outside the canvas.
\<close>

datatype Contents =
  ExternalContents nat
  | FramebufferBlendContents BlendMode Contents
  | BlendFilterContents BlendMode nat Contents

record 'm Entity =
  entity_transform :: 'm
  entity_blend_mode :: BlendMode
  entity_contents :: Contents
  entity_clip_depth :: nat
  inherited_opacity :: Scalar

record LazyRenderingConfig =
  entity_pass_target :: nat
  inline_pass_context :: nat

record SaveLayerState =
  sls_paint :: Paint
  sls_coverage :: Rect

text \<open>
  The members of \<open>Canvas\<close> that the operations below read and write.  A
  \<open>std::vector\<close> used as a stack is a list whose head is \<open>back()\<close>.
  \<open>targets_created\<close> counts the calls of \<open>CreateRenderTarget\<close>; the id of an
  offscreen target is its number, from 1 (0 is the onscreen target).  The clip coverage stack, the renderer and the GPU
  passes are collaborators: what they answer during one call is that call's
  environment record.
\<close>

record 'm Canvas =
  transform_stack :: "'m CanvasStackEntry list"
  current_depth :: nat
  render_passes :: "LazyRenderingConfig list"
  save_layer_state :: "SaveLayerState list"
  targets_created :: nat

text \<open>The matrix and contents operations the canvas calls, as parameters.\<close>

record 'm Externals =
  MatrixIdentity :: 'm
  MatrixMultiply :: "'m \<Rightarrow> 'm \<Rightarrow> 'm"
  MakeTranslation :: "Point \<Rightarrow> 'm"
  IsOpaque :: "Contents \<Rightarrow> 'm \<Rightarrow> bool"

text \<open>What \<open>FlipBackdrop\<close> is answered by the pass context and the renderer.\<close>

record FlipEnv =
  end_pass_ok :: bool
  color_texture :: "nat option"
  backdrop_render_ok :: bool

record CoverageEnv =
  clip_has_coverage :: bool
  current_clip_coverage :: "Rect option"
  pass_texture_size :: "Scalar \<times> Scalar"
  render_target_size :: "Scalar \<times> Scalar"

record SaveLayerEnv =
  coverage_env :: CoverageEnv
  computed_subpass_coverage :: "Rect option"
  subpass_size_is_empty :: bool
  save_layer_flip :: FlipEnv

record RestoreEnv =
  restore_supports_framebuffer_fetch :: bool
  restore_flip :: FlipEnv
  clip_did_change :: bool
  should_render :: bool

record DrawEnv =
  is_applying_clear_color :: bool
  as_background_color :: "nat option"
  draw_supports_framebuffer_fetch :: bool
  draw_flip :: FlipEnv
  render_pass_available :: bool

subsection \<open>Operations\<close>

definition default_entry :: "'m Externals \<Rightarrow> 'm CanvasStackEntry" where
  "default_entry ext =
     \<lparr>transform = MatrixIdentity ext, clip_depth = 0, clip_height = 0, num_clips = 0,
      distributed_opacity = 1, rendering_mode = kDirect, skipping = False,
      did_round_out = False\<rparr>"

definition MakeLazyRenderingConfig :: "nat \<Rightarrow> nat \<Rightarrow> LazyRenderingConfig" where
  "MakeLazyRenderingConfig target ctx =
     \<lparr>entity_pass_target = target, inline_pass_context = ctx\<rparr>"

text \<open>
  \<open>FlipBackdrop\<close>: the result is the input texture (\<open>None\<close> for \<open>nullptr\<close>) and
  the render-pass stack.  \<open>back()\<close> of an empty vector is undefined behaviour: the
  outer \<open>None\<close>.
\<close>

definition FlipBackdrop ::
  "FlipEnv \<Rightarrow> LazyRenderingConfig list \<Rightarrow> (nat option \<times> LazyRenderingConfig list) option" where
  "FlipBackdrop env passes =
     (case passes of
        [] \<Rightarrow> None
      | rendering_config # popped \<Rightarrow>
          let pushed = MakeLazyRenderingConfig (entity_pass_target rendering_config)
                         (inline_pass_context rendering_config) # popped
          in if \<not> end_pass_ok env then Some (None, pushed)
             else (case color_texture env of
                     None \<Rightarrow> Some (None, pushed)
                   | Some input_texture \<Rightarrow>
                       if \<not> backdrop_render_ok env then Some (None, pushed)
                       else Some (Some input_texture, pushed)))"

definition Initialize :: "'m Externals \<Rightarrow> nat \<Rightarrow> 'm Canvas \<Rightarrow> 'm Canvas" where
  "Initialize ext kMaxDepth st =
     st\<lparr>transform_stack := (default_entry ext)\<lparr>clip_depth := kMaxDepth\<rparr> # transform_stack st\<rparr>"

definition GetSaveCount :: "'m Canvas \<Rightarrow> nat" where
  "GetSaveCount st = length (transform_stack st)"

definition GetGlobalPassPosition :: "'m Canvas \<Rightarrow> Point" where
  "GetGlobalPassPosition st =
     (case save_layer_state st of [] \<Rightarrow> (0, 0) | s # _ \<Rightarrow> GetOrigin (sls_coverage s))"

definition SkipUntilMatchingRestore :: "'m Externals \<Rightarrow> nat \<Rightarrow> 'm Canvas \<Rightarrow> 'm Canvas" where
  "SkipUntilMatchingRestore ext total_content_depth st =
     st\<lparr>transform_stack :=
          (default_entry ext)\<lparr>skipping := True,
                               clip_depth := current_depth st + total_content_depth\<rparr>
          # transform_stack st\<rparr>"

definition Save :: "'m Externals \<Rightarrow> nat \<Rightarrow> 'm Canvas \<Rightarrow> 'm Canvas option" where
  "Save ext total_content_depth st =
     (case transform_stack st of
        [] \<Rightarrow> None
      | back # _ \<Rightarrow>
          if skipping back then Some (SkipUntilMatchingRestore ext total_content_depth st)
          else Some (st\<lparr>transform_stack :=
                 (default_entry ext)\<lparr>transform := transform back,
                                      clip_depth := current_depth st + total_content_depth,
                                      distributed_opacity := distributed_opacity back,
                                      clip_height := clip_height back,
                                      rendering_mode := kDirect\<rparr>
                 # transform_stack st\<rparr>))"

definition GetLocalCoverageLimit :: "CoverageEnv \<Rightarrow> 'm Canvas \<Rightarrow> Rect option option" where
  "GetLocalCoverageLimit env st =
     (if \<not> clip_has_coverage env then Some None
      else (case current_clip_coverage env of
              None \<Rightarrow> Some None
            | Some current \<Rightarrow>
                (case render_passes st of
                   [] \<Rightarrow> None
                 | _ # _ \<Rightarrow>
                     (case Intersection
                             (MakeOriginSize (GetGlobalPassPosition st) (pass_texture_size env))
                             current of
                        None \<Rightarrow> Some None
                      | Some limit \<Rightarrow>
                          if IsEmpty limit then Some None
                          else Some (Intersection limit (MakeSize (render_target_size env)))))))"

text \<open>The statement \<open>transform_stack_.back().distributed_opacity *= alpha\<close>.\<close>

definition scale_back_distributed_opacity :: "Scalar \<Rightarrow> 'm Canvas \<Rightarrow> 'm Canvas option" where
  "scale_back_distributed_opacity alpha st =
     (case transform_stack st of
        [] \<Rightarrow> None
      | back # rest \<Rightarrow>
          Some (st\<lparr>transform_stack :=
                  back\<lparr>distributed_opacity := distributed_opacity back * alpha\<rparr> # rest\<rparr>))"

text \<open>
  \<open>SaveLayer\<close>.  \<open>backdrop_filter\<close> tells whether the shared pointer is set.  The
  caller's \<open>bounds\<close> only enter \<open>ComputeSaveLayerCoverage\<close> (of
  \<open>save_layer_utils.h\<close>), whose answer is \<open>computed_subpass_coverage\<close>.  Without a
  backdrop filter no flip is made: the render-pass stack is taken as it is (with a
  texture 0 that nothing reads).  A failed flip returns from \<open>SaveLayer\<close> at once.
\<close>

definition SaveLayer ::
  "'m Externals \<Rightarrow> SaveLayerEnv \<Rightarrow> Paint \<Rightarrow> bool \<Rightarrow> ContentBoundsPromise \<Rightarrow> nat \<Rightarrow> bool
     \<Rightarrow> 'm Canvas \<Rightarrow> 'm Canvas option" where
  "SaveLayer ext env paint backdrop_filter bounds_promise total_content_depth
       can_distribute_opacity st =
     (case transform_stack st of
        [] \<Rightarrow> None
      | back # rest \<Rightarrow>
          if skipping back then Some (SkipUntilMatchingRestore ext total_content_depth st)
          else
            (case GetLocalCoverageLimit (coverage_env env) st of
               None \<Rightarrow> None
             | Some None \<Rightarrow> Some (SkipUntilMatchingRestore ext total_content_depth st)
             | Some (Some coverage_limit) \<Rightarrow>
                 if can_distribute_opacity \<and> \<not> backdrop_filter \<and>
                    CanApplyOpacityPeephole paint \<and> bounds_promise \<noteq> kMayClipContents
                 then Option.bind (Save ext total_content_depth st)
                        (scale_back_distributed_opacity (color_alpha paint))
                 else
                   (case computed_subpass_coverage env of
                      None \<Rightarrow> Some (SkipUntilMatchingRestore ext total_content_depth st)
                    | Some subpass_coverage \<Rightarrow>
                        if subpass_size_is_empty env
                        then Some (SkipUntilMatchingRestore ext total_content_depth st)
                        else
                          (case (if backdrop_filter
                                 then FlipBackdrop (save_layer_flip env) (render_passes st)
                                 else Some (Some 0, render_passes st)) of
                             None \<Rightarrow> None
                           | Some (None, passes) \<Rightarrow> Some (st\<lparr>render_passes := passes\<rparr>)
                           | Some (Some input_texture, passes) \<Rightarrow>
                               let paint_copy =
                                     paint\<lparr>color_alpha :=
                                              color_alpha paint * distributed_opacity back\<rparr>;
                                   back' = back\<lparr>distributed_opacity := 1\<rparr>;
                                   entry = (default_entry ext)
                                     \<lparr>transform := transform back',
                                      clip_depth := current_depth st + total_content_depth,
                                      clip_height := clip_height back',
                                      rendering_mode := kSubpassAppendSnapshotTransform,
                                      did_round_out := \<not> image_filter paint\<rparr>
                               in Some (st\<lparr>render_passes :=
                                             MakeLazyRenderingConfig (Suc (targets_created st))
                                               (Suc (targets_created st)) # passes,
                                           targets_created := Suc (targets_created st),
                                           save_layer_state :=
                                             \<lparr>sls_paint = paint_copy,
                                              sls_coverage = subpass_coverage\<rparr>
                                             # save_layer_state st,
                                           transform_stack := entry # back' # rest\<rparr>)))))"

text \<open>
  \<open>Restore\<close>: the returned boolean and the canvas.  The clip-restore entity of a
  plain scope is rendered through \<open>render_passes_.back()\<close> when the clip state
  changed or the entity should render.
\<close>

definition Restore :: "RestoreEnv \<Rightarrow> 'm Canvas \<Rightarrow> (bool \<times> 'm Canvas) option" where
  "Restore env st =
     (case transform_stack st of
        [] \<Rightarrow> None
      | [_] \<Rightarrow> Some (False, st)
      | back # rest \<Rightarrow>
          let st1 = st\<lparr>current_depth := clip_depth back\<rparr> in
          if skipping back then Some (True, st1\<lparr>transform_stack := rest\<rparr>)
          else if rendering_mode back = kSubpassAppendSnapshotTransform \<or>
                  rendering_mode back = kSubpassPrependSnapshotTransform
          then
            (case render_passes st1 of
               [] \<Rightarrow> None
             | lazy_render_pass # passes \<Rightarrow>
                 (case save_layer_state st1 of
                    [] \<Rightarrow> None
                  | layer # layers \<Rightarrow>
                      let st2 = st1\<lparr>render_passes := passes, save_layer_state := layers,
                                     current_depth := Suc (current_depth st1)\<rparr>
                      in if exceeds_kLastPipelineBlendMode (blend_mode (sls_paint layer)) \<and>
                            \<not> restore_supports_framebuffer_fetch env
                         then
                           (case FlipBackdrop (restore_flip env) passes of
                              None \<Rightarrow> None
                            | Some (None, passes') \<Rightarrow>
                                Some (False, st2\<lparr>render_passes := passes'\<rparr>)
                            | Some (Some input_texture, passes') \<Rightarrow>
                                Some (True, st2\<lparr>render_passes := passes',
                                                transform_stack := rest\<rparr>))
                         else
                           (case passes of
                              [] \<Rightarrow> None
                            | _ # _ \<Rightarrow> Some (True, st2\<lparr>transform_stack := rest\<rparr>))))
          else
            let st2 = st1\<lparr>transform_stack := rest\<rparr> in
            if 0 < num_clips back \<and> (clip_did_change env \<or> should_render env) \<and>
               render_passes st2 = []
            then None
            else Some (True, st2))"

text \<open>
  \<open>RestoreToCount\<close>: the loop calls \<open>Restore\<close> once per iteration; \<open>envs k\<close> is the
  environment of the call made when the save count is \<open>k\<close>.
\<close>

function RestoreToCount :: "(nat \<Rightarrow> RestoreEnv) \<Rightarrow> nat \<Rightarrow> 'm Canvas \<Rightarrow> 'm Canvas option" where
  "RestoreToCount envs count st =
     (if count < GetSaveCount st
      then (case Restore (envs (GetSaveCount st)) st of
              None \<Rightarrow> None
            | Some (ok, st') \<Rightarrow>
                if ok then RestoreToCount envs count st' else Some st')
      else Some st)"
  by pat_completeness auto
termination
proof (relation "measure (\<lambda>(envs, count, st). GetSaveCount st)")
  show "wf (measure (\<lambda>(envs, count, st). GetSaveCount st))"
    by simp
next
  fix envs :: "nat \<Rightarrow> RestoreEnv" and count :: nat and st :: "'m Canvas"
    and x2 :: "bool \<times> 'm Canvas" and ok :: bool and st' :: "'m Canvas"
  assume r: "Restore (envs (GetSaveCount st)) st = Some x2" and x: "(ok, st') = x2" and ok: ok
  from r x ok have "Restore (envs (GetSaveCount st)) st = Some (True, st')"
    by simp
  then have "length (transform_stack st') < length (transform_stack st)"
    by (auto simp: Restore_def Let_def
             split: list.splits if_splits option.splits prod.splits)
  then show "((envs, count, st'), (envs, count, st))
               \<in> measure (\<lambda>(envs, count, st). GetSaveCount st)"
    by (simp add: GetSaveCount_def)
qed

text \<open>
  \<open>AddRenderEntityToCurrentPass\<close>: the canvas, the entity as the call leaves it (it is
  passed by reference) and what became of it.
\<close>

datatype DrawOutcome =
  Skipped | FoldedIntoClearColor | BackdropFlipFailed | NoRenderPass | Rendered

definition ApplyFramebufferBlend :: "'m Entity \<Rightarrow> 'm Entity" where
  "ApplyFramebufferBlend entity =
     entity\<lparr>entity_contents :=
               FramebufferBlendContents (entity_blend_mode entity) (entity_contents entity),
            entity_blend_mode := kSource\<rparr>"

text \<open>Lines 1413 to 1420: rebase the transform, inherit the opacity, rewrite the blend.\<close>

definition prepare_entity :: "'m Externals \<Rightarrow> 'm Canvas \<Rightarrow> Scalar \<Rightarrow> 'm Entity \<Rightarrow> 'm Entity" where
  "prepare_entity ext st opacity entity =
     (let e1 = entity\<lparr>entity_transform :=
                  MatrixMultiply ext
                    (MakeTranslation ext (- fst (GetGlobalPassPosition st),
                                          - snd (GetGlobalPassPosition st)))
                    (entity_transform entity)\<rparr>;
          e2 = e1\<lparr>inherited_opacity := opacity\<rparr>
      in if entity_blend_mode e2 = kSourceOver \<and>
            IsOpaque ext (entity_contents e2) (entity_transform e2)
         then e2\<lparr>entity_blend_mode := kSource\<rparr>
         else e2)"

definition AddRenderEntityToCurrentPass ::
  "'m Externals \<Rightarrow> DrawEnv \<Rightarrow> 'm Entity \<Rightarrow> bool \<Rightarrow> 'm Canvas
     \<Rightarrow> ('m Canvas \<times> 'm Entity \<times> DrawOutcome) option" where
  "AddRenderEntityToCurrentPass ext env entity reuse_depth st =
     (case transform_stack st of
        [] \<Rightarrow> None
      | back # _ \<Rightarrow>
          if skipping back then Some (st, entity, Skipped)
          else
            let e = prepare_entity ext st (distributed_opacity back) entity in
            (case render_passes st of
               [] \<Rightarrow> None
             | _ # _ \<Rightarrow>
                 if is_applying_clear_color env \<and> as_background_color env \<noteq> None
                 then Some (st, e, FoldedIntoClearColor)
                 else
                   let st1 = (if reuse_depth then st
                              else st\<lparr>current_depth := Suc (current_depth st)\<rparr>);
                       e1 = e\<lparr>entity_clip_depth := current_depth st1\<rparr>
                   in if exceeds_kLastPipelineBlendMode (entity_blend_mode e1)
                      then
                        if draw_supports_framebuffer_fetch env
                        then Some (st1, ApplyFramebufferBlend e1,
                                   if render_pass_available env then Rendered else NoRenderPass)
                        else
                          (case FlipBackdrop (draw_flip env) (render_passes st1) of
                             None \<Rightarrow> None
                           | Some (None, passes) \<Rightarrow>
                               Some (st1\<lparr>render_passes := passes\<rparr>, e1, BackdropFlipFailed)
                           | Some (Some input_texture, passes) \<Rightarrow>
                               Some (st1\<lparr>render_passes := passes\<rparr>,
                                     e1\<lparr>entity_contents :=
                                           BlendFilterContents (entity_blend_mode e1)
                                             input_texture (entity_contents e1),
                                        entity_blend_mode := kSource\<rparr>,
                                     if render_pass_available env then Rendered
                                     else NoRenderPass))
                      else Some (st1, e1,
                                 if render_pass_available env then Rendered else NoRenderPass)))"

text \<open>
  The constructor: \<open>Initialize\<close>, then \<open>SetupRenderPass\<close>, which pushes the root pass
  (an offscreen target when a readback is required, the onscreen target otherwise).
\<close>

definition NewCanvas :: "'m Externals \<Rightarrow> nat \<Rightarrow> bool \<Rightarrow> 'm Canvas" where
  "NewCanvas ext kMaxDepth requires_readback =
     (let st = Initialize ext kMaxDepth
                 \<lparr>transform_stack = [], current_depth = 0, render_passes = [],
                  save_layer_state = [], targets_created = 0\<rparr>
      in if requires_readback
         then st\<lparr>render_passes := [MakeLazyRenderingConfig 1 1], targets_created := 1\<rparr>
         else st\<lparr>render_passes := [MakeLazyRenderingConfig 0 0]\<rparr>)"

text \<open>
  The externals on the transforms that are pure translations: a transform is its
  offset, the product adds offsets, and no contents report themselves opaque unless
  tagged with an even number.
\<close>

definition translation_externals :: "Point Externals" where
  "translation_externals =
     \<lparr>MatrixIdentity = (0, 0),
      MatrixMultiply = (\<lambda>a b. (fst a + fst b, snd a + snd b)),
      MakeTranslation = (\<lambda>p. p),
      IsOpaque = (\<lambda>c m. case c of ExternalContents n \<Rightarrow> even n | _ \<Rightarrow> False)\<rparr>"

subsection \<open>Sequences of calls\<close>

datatype 'm CanvasOp =
  OpSave nat
  | OpSaveLayer SaveLayerEnv Paint bool ContentBoundsPromise nat bool
  | OpRestore RestoreEnv
  | OpDraw DrawEnv "'m Entity" bool

text \<open>
  A draw stamps a depth on its entity unless the canvas is skipping or the entity is
  folded into the clear colour.  \<open>exec_op\<close> returns the canvas and the stamps of the
  call: the depth and the \<open>reuse_depth\<close> flag.
\<close>

definition stamped :: "DrawOutcome \<Rightarrow> bool" where
  "stamped outcome = (outcome \<noteq> Skipped \<and> outcome \<noteq> FoldedIntoClearColor)"

fun exec_op :: "'m Externals \<Rightarrow> 'm CanvasOp \<Rightarrow> 'm Canvas \<Rightarrow> ('m Canvas \<times> (nat \<times> bool) list) option" where
  "exec_op ext (OpSave d) st = map_option (\<lambda>s. (s, [])) (Save ext d st)"
| "exec_op ext (OpSaveLayer env paint backdrop promise d distribute) st =
     map_option (\<lambda>s. (s, [])) (SaveLayer ext env paint backdrop promise d distribute st)"
| "exec_op ext (OpRestore env) st = map_option (\<lambda>r. (snd r, [])) (Restore env st)"
| "exec_op ext (OpDraw env entity reuse_depth) st =
     (case AddRenderEntityToCurrentPass ext env entity reuse_depth st of
        None \<Rightarrow> None
      | Some (st', e, outcome) \<Rightarrow>
          Some (st', if stamped outcome then [(entity_clip_depth e, reuse_depth)] else []))"

fun run :: "'m Externals \<Rightarrow> 'm CanvasOp list \<Rightarrow> 'm Canvas \<Rightarrow> ('m Canvas \<times> (nat \<times> bool) list) option" where
  "run ext [] st = Some (st, [])"
| "run ext (op # ops) st =
     (case exec_op ext op st of
        None \<Rightarrow> None
      | Some (st1, s1) \<Rightarrow>
          (case run ext ops st1 of
             None \<Rightarrow> None
           | Some (st2, s2) \<Rightarrow> Some (st2, s1 @ s2)))"

text \<open>The \<open>FML_DCHECK\<close> of \<open>Restore\<close>, \<open>AddRenderEntityToCurrentPass\<close> and
  \<open>AddClipEntityToCurrentPass\<close>: the current depth is within the ceiling of the innermost
  open frame.\<close>

definition depth_within_clip :: "'m Canvas \<Rightarrow> bool" where
  "depth_within_clip st =
     (case transform_stack st of
        [] \<Rightarrow> False
      | back # _ \<Rightarrow> current_depth st \<le> clip_depth back)"

text \<open>Stamps in call order: a draw that does not reuse the depth is stamped above
  everything before it, one that reuses it is stamped no lower.\<close>

fun stamps_increasing :: "nat \<Rightarrow> (nat \<times> bool) list \<Rightarrow> bool" where
  "stamps_increasing prev [] = True"
| "stamps_increasing prev ((d, reuse) # rest) =
     ((if reuse then prev \<le> d else prev < d) \<and> stamps_increasing d rest)"

text \<open>
  The budgeting contract, as the code needs it.  Each open frame has a remaining
  budget; \<open>Restore\<close> moves the depth counter to the ceiling of the frame it closes (and
  one further for the composite of a subpass), so a nested scope costs its enclosing
  frame the whole reserved depth (and one more for a \<open>SaveLayer\<close>), and a draw that
  does not reuse the depth costs one.
\<close>

fun budget_step :: "nat list \<Rightarrow> 'm CanvasOp \<Rightarrow> nat list option" where
  "budget_step [] op = None"
| "budget_step (b # bs) (OpSave d) = (if d \<le> b then Some (d # (b - d) # bs) else None)"
| "budget_step (b # bs) (OpSaveLayer env paint backdrop promise d distribute) =
     (if Suc d \<le> b then Some (d # (b - Suc d) # bs) else None)"
| "budget_step (b # bs) (OpRestore env) = (case bs of [] \<Rightarrow> Some [b] | _ # _ \<Rightarrow> Some bs)"
| "budget_step (b # bs) (OpDraw env entity reuse_depth) =
     (if reuse_depth then Some (b # bs)
      else if 1 \<le> b then Some ((b - 1) # bs) else None)"

fun budget_ok :: "nat list \<Rightarrow> 'm CanvasOp list \<Rightarrow> bool" where
  "budget_ok bs [] = True"
| "budget_ok bs (op # ops) =
     (case budget_step bs op of None \<Rightarrow> False | Some bs' \<Rightarrow> budget_ok bs' ops)"

text \<open>
  The contract as the claim words it: the reserved depth of each \<open>Save\<close> or
  \<open>SaveLayer\<close> bounds the number of depth-consuming draws before its matching
  \<open>Restore\<close>.
\<close>

fun draws_before_matching_restore :: "nat \<Rightarrow> 'm CanvasOp list \<Rightarrow> nat" where
  "draws_before_matching_restore k [] = 0"
| "draws_before_matching_restore k (OpSave d # ops) =
     draws_before_matching_restore (Suc k) ops"
| "draws_before_matching_restore k (OpSaveLayer env paint backdrop promise d distribute # ops) =
     draws_before_matching_restore (Suc k) ops"
| "draws_before_matching_restore k (OpRestore env # ops) =
     (case k of 0 \<Rightarrow> 0 | Suc j \<Rightarrow> draws_before_matching_restore j ops)"
| "draws_before_matching_restore k (OpDraw env entity reuse_depth # ops) =
     (if reuse_depth then 0 else 1) + draws_before_matching_restore k ops"

fun reserved_depth_bounds_draws :: "'m CanvasOp list \<Rightarrow> bool" where
  "reserved_depth_bounds_draws [] = True"
| "reserved_depth_bounds_draws (OpSave d # ops) =
     (draws_before_matching_restore 0 ops \<le> d \<and> reserved_depth_bounds_draws ops)"
| "reserved_depth_bounds_draws (OpSaveLayer env paint backdrop promise d distribute # ops) =
     (draws_before_matching_restore 0 ops \<le> d \<and> reserved_depth_bounds_draws ops)"
| "reserved_depth_bounds_draws (OpRestore env # ops) = reserved_depth_bounds_draws ops"
| "reserved_depth_bounds_draws (OpDraw env entity reuse_depth # ops) =
     reserved_depth_bounds_draws ops"

text \<open>A backdrop flip that succeeds, and the calls of a sequence whose flips do.\<close>

definition flip_succeeds :: "FlipEnv \<Rightarrow> bool" where
  "flip_succeeds env = (end_pass_ok env \<and> color_texture env \<noteq> None \<and> backdrop_render_ok env)"

definition restore_composites :: "RestoreEnv \<Rightarrow> bool" where
  "restore_composites env =
     (restore_supports_framebuffer_fetch env \<or> flip_succeeds (restore_flip env))"

fun flips_succeed :: "'m CanvasOp \<Rightarrow> bool" where
  "flips_succeed (OpSaveLayer env paint backdrop promise d distribute) =
     flip_succeeds (save_layer_flip env)"
| "flips_succeed (OpRestore env) = restore_composites env"
| "flips_succeed (OpSave d) = True"
| "flips_succeed (OpDraw env entity reuse_depth) = True"

text \<open>
  Well-formed canvases: the frames that own a subpass are those \<open>Restore\<close> composites,
  and each owns one render pass above the root pass and one save-layer state.
\<close>

definition is_subpass_entry :: "'m CanvasStackEntry \<Rightarrow> bool" where
  "is_subpass_entry e =
     (\<not> skipping e \<and>
      (rendering_mode e = kSubpassAppendSnapshotTransform \<or>
       rendering_mode e = kSubpassPrependSnapshotTransform))"

definition canvas_wf :: "'m Canvas \<Rightarrow> bool" where
  "canvas_wf st =
     (transform_stack st \<noteq> [] \<and>
      length (render_passes st) = Suc (length (filter is_subpass_entry (transform_stack st))) \<and>
      length (save_layer_state st) = length (filter is_subpass_entry (transform_stack st)))"

fun frames_ok :: "nat \<Rightarrow> nat list \<Rightarrow> 'm CanvasStackEntry list \<Rightarrow> bool" where
  "frames_ok c [] [] = True"
| "frames_ok c (b # bs) (f # fs) =
     (c + b \<le> clip_depth f \<and>
      frames_ok (clip_depth f + (if is_subpass_entry f then 1 else 0)) bs fs)"
| "frames_ok c _ _ = False"


text \<open>The invariant of a run within budget: \<open>bs\<close> are the remaining budgets of the
  open frames, innermost first.\<close>

definition budget_inv :: "nat list \<Rightarrow> 'm Canvas \<Rightarrow> bool" where
  "budget_inv bs st = (canvas_wf st \<and> frames_ok (current_depth st) bs (transform_stack st))"

text \<open>Balanced sequences: every \<open>Restore\<close> closes a \<open>Save\<close> or \<open>SaveLayer\<close> of the
  sequence, and none stays open.  \<open>k\<close> counts the scopes the sequence has open.\<close>

fun balanced :: "nat \<Rightarrow> 'm CanvasOp list \<Rightarrow> bool" where
  "balanced k [] = (k = 0)"
| "balanced k (OpSave d # ops) = balanced (Suc k) ops"
| "balanced k (OpSaveLayer env paint backdrop promise d distribute # ops) = balanced (Suc k) ops"
| "balanced k (OpRestore env # ops) = (case k of 0 \<Rightarrow> False | Suc j \<Rightarrow> balanced j ops)"
| "balanced k (OpDraw env entity reuse_depth # ops) = balanced k ops"

subsection \<open>Sample inputs\<close>

definition flip_ok :: FlipEnv where
  "flip_ok = \<lparr>end_pass_ok = True, color_texture = Some 1, backdrop_render_ok = True\<rparr>"

definition flip_end_pass_fails :: FlipEnv where
  "flip_end_pass_fails =
     \<lparr>end_pass_ok = False, color_texture = Some 1, backdrop_render_ok = True\<rparr>"

definition full_coverage :: CoverageEnv where
  "full_coverage =
     \<lparr>clip_has_coverage = True, current_clip_coverage = Some (MakeLTRB 0 0 100 100),
      pass_texture_size = (100, 100), render_target_size = (100, 100)\<rparr>"

definition no_coverage :: CoverageEnv where
  "no_coverage =
     \<lparr>clip_has_coverage = False, current_clip_coverage = None,
      pass_texture_size = (100, 100), render_target_size = (100, 100)\<rparr>"

definition layer_env :: "CoverageEnv \<Rightarrow> FlipEnv \<Rightarrow> SaveLayerEnv" where
  "layer_env cov flip =
     \<lparr>coverage_env = cov, computed_subpass_coverage = Some (MakeLTRB 0 0 100 100),
      subpass_size_is_empty = False, save_layer_flip = flip\<rparr>"

definition restore_env :: "FlipEnv \<Rightarrow> RestoreEnv" where
  "restore_env flip =
     \<lparr>restore_supports_framebuffer_fetch = False, restore_flip = flip,
      clip_did_change = False, should_render = False\<rparr>"

definition draw_env :: DrawEnv where
  "draw_env =
     \<lparr>is_applying_clear_color = False, as_background_color = None,
      draw_supports_framebuffer_fetch = False, draw_flip = flip_ok,
      render_pass_available = True\<rparr>"

definition plain_paint :: "Scalar \<Rightarrow> BlendMode \<Rightarrow> Paint" where
  "plain_paint alpha blend =
     \<lparr>color_alpha = alpha, blend_mode = blend, image_filter = False, color_filter = False\<rparr>"

definition sample_entity :: "BlendMode \<Rightarrow> nat \<Rightarrow> Point Entity" where
  "sample_entity blend n =
     \<lparr>entity_transform = (0, 0), entity_blend_mode = blend,
      entity_contents = ExternalContents n, entity_clip_depth = 0, inherited_opacity = 1\<rparr>"

text \<open>\<open>Save(3); Draw; SaveLayer(1) [subpass]; Draw; Restore; Restore; Draw [reuse]\<close>.\<close>

definition budgeted_ops :: "Point CanvasOp list" where
  "budgeted_ops =
     [OpSave 3,
      OpDraw draw_env (sample_entity kSourceOver 1) False,
      OpSaveLayer (layer_env full_coverage flip_ok) (plain_paint (1/2) kSourceOver)
        False kUnknown 1 False,
      OpDraw draw_env (sample_entity kSourceOver 1) False,
      OpRestore (restore_env flip_ok),
      OpRestore (restore_env flip_ok),
      OpDraw draw_env (sample_entity kSourceOver 1) True]"

text \<open>\<open>Save(1); Save(1); Restore; Draw\<close>: one draw inside the outer scope, none
  inside the inner one.\<close>

definition nested_reservation_ops :: "Point CanvasOp list" where
  "nested_reservation_ops =
     [OpSave 1, OpSave 1, OpRestore (restore_env flip_ok),
      OpDraw draw_env (sample_entity kSourceOver 1) False]"

text \<open>\<open>Save(3); SaveLayer(1) [subpass]; Save(1)\<close> on a new canvas.\<close>

definition three_scopes :: "Point Canvas" where
  "three_scopes =
     (case run translation_externals
             [OpSave 3,
              OpSaveLayer (layer_env full_coverage flip_ok) (plain_paint (1/2) kSourceOver)
                False kUnknown 1 False,
              OpSave 1]
             (NewCanvas translation_externals 10 False) of
        None \<Rightarrow> NewCanvas translation_externals 10 False
      | Some (st, _) \<Rightarrow> st)"


section \<open>Clip tracker (display\_list/utils/dl\_matrix\_clip\_tracker.cc)\<close>

subsection \<open>Data\<close>

text \<open>
  Modelled from the spec: more rectangle helpers of \<open>impeller/geometry/rect.h\<close>, which
  is not among the sources.  \<open>CutoutOrEmpty\<close> is the "transform-aligned rectangular
  cutout": what is left of a rectangle when another is cut out of it, as a rectangle.
  Nothing is left when the cutout covers it; a band is left when the cutout spans it
  on one axis and reaches over one of its edges on the other; otherwise the rectangle
  is left as it is.  Both only compare edges.
\<close>

definition CutoutOrEmpty :: "Rect \<Rightarrow> Rect \<Rightarrow> Rect" where
  "CutoutOrEmpty a b =
     (if IsEmpty a then DlRect
      else if rect_left b \<le> rect_left a \<and> rect_right a \<le> rect_right b \<and>
              rect_top b \<le> rect_top a \<and> rect_bottom a \<le> rect_bottom b
      then DlRect
      else if rect_left b \<le> rect_left a \<and> rect_right a \<le> rect_right b \<and>
              rect_top b \<le> rect_top a \<and> rect_top a < rect_bottom b
      then MakeLTRB (rect_left a) (rect_bottom b) (rect_right a) (rect_bottom a)
      else if rect_left b \<le> rect_left a \<and> rect_right a \<le> rect_right b \<and>
              rect_bottom a \<le> rect_bottom b \<and> rect_top b < rect_bottom a
      then MakeLTRB (rect_left a) (rect_top a) (rect_right a) (rect_top b)
      else if rect_top b \<le> rect_top a \<and> rect_bottom a \<le> rect_bottom b \<and>
              rect_left b \<le> rect_left a \<and> rect_left a < rect_right b
      then MakeLTRB (rect_right b) (rect_top a) (rect_right a) (rect_bottom a)
      else if rect_top b \<le> rect_top a \<and> rect_bottom a \<le> rect_bottom b \<and>
              rect_right a \<le> rect_right b \<and> rect_left b < rect_right a
      then MakeLTRB (rect_left a) (rect_top a) (rect_left b) (rect_bottom a)
      else a)"

definition ContainsInclusive :: "Rect \<Rightarrow> Point \<Rightarrow> bool" where
  "ContainsInclusive r p =
     (\<not> IsEmpty r \<and> rect_left r \<le> fst p \<and> rect_top r \<le> snd p \<and>
      fst p \<le> rect_right r \<and> snd p \<le> rect_bottom r)"

text \<open>
  The arithmetic of the tracker is \<open>float\<close> arithmetic: a sum, difference, product or
  quotient of two floats is a float again, the exact result rounded.  The finite floats
  are among the reals; how an operation rounds is not fixed here: the four operations
  are parameters, and so are the two centre functions, \<open>DlRect::GetCenter\<close> of
  \<open>rect.h\<close> and \<open>centerX\<close>, \<open>centerY\<close> of Skia's \<open>SkRect\<close>, neither of which is among
  the sources.  Comparisons, \<open>std::abs\<close>, \<open>std::max\<close> and negation are exact.
\<close>

record FloatOps =
  fadd :: "Scalar \<Rightarrow> Scalar \<Rightarrow> Scalar"
  fsub :: "Scalar \<Rightarrow> Scalar \<Rightarrow> Scalar"
  fmul :: "Scalar \<Rightarrow> Scalar \<Rightarrow> Scalar"
  fdiv :: "Scalar \<Rightarrow> Scalar \<Rightarrow> Scalar"
  GetCenter :: "Rect \<Rightarrow> Point"
  SkRect_center :: "Rect \<Rightarrow> Point"

text \<open>\<open>Expand\<close> (of \<open>rect.h\<close>) moves each edge outwards by its argument;
  \<open>GetSize\<close> is width and height; \<open>GetLengthSquared\<close> (of \<open>point.h\<close>) is the sum
  of the squares of the coordinates.\<close>

definition Expand :: "FloatOps \<Rightarrow> Rect \<Rightarrow> Scalar \<Rightarrow> Scalar \<Rightarrow> Scalar \<Rightarrow> Scalar \<Rightarrow> Rect" where
  "Expand fo r l t rt b =
     MakeLTRB (fsub fo (rect_left r) l) (fsub fo (rect_top r) t)
              (fadd fo (rect_right r) rt) (fadd fo (rect_bottom r) b)"

definition GetSize :: "FloatOps \<Rightarrow> Rect \<Rightarrow> Scalar \<times> Scalar" where
  "GetSize fo r = (fsub fo (rect_right r) (rect_left r), fsub fo (rect_bottom r) (rect_top r))"

definition GetLengthSquared :: "FloatOps \<Rightarrow> Point \<Rightarrow> Scalar" where
  "GetLengthSquared fo p = fadd fo (fmul fo (fst p) (fst p)) (fmul fo (snd p) (snd p))"

text \<open>
  A rectangle handed to \<open>clipRect\<close> or \<open>clipOval\<close> may have an infinite or NaN edge,
  which \<open>IsFinite\<close> tells; only the finite ones are a \<open>Rect\<close>.
\<close>

datatype DlRectArg = FiniteRect Rect | NonFiniteRect

definition IsFinite :: "DlRectArg \<Rightarrow> bool" where
  "IsFinite r = (case r of FiniteRect _ \<Rightarrow> True | NonFiniteRect \<Rightarrow> False)"

datatype ClipOp = kIntersect | kDifference

text \<open>
  \<open>SkRRect\<close> is Skia's rounded rectangle: its bounds (which Skia keeps finite), its
  type tag (\<open>isEmpty\<close>, \<open>isRect\<close>, \<open>isOval\<close> and \<open>isSimple\<close> test the tag) and the
  radii of its four corners; \<open>getSimpleRadii\<close> is the radii of the upper left corner.
\<close>

datatype SkRRectType =
  kEmpty_Type | kRect_Type | kOval_Type | kSimple_Type | kNinePatch_Type | kComplex_Type

record SkRRect =
  rr_bounds :: Rect
  rr_type :: SkRRectType
  rr_upper_left :: Point
  rr_upper_right :: Point
  rr_lower_right :: Point
  rr_lower_left :: Point

text \<open>
  The transform is a \<open>DlMatrix\<close>; \<open>matrix.h\<close> and the tracker's own header are not
  among the sources, so the matrix type is a parameter and the operations the tracker
  calls on it are a record of functions.  \<open>mapRect\<close> returns the bounds of the mapped
  rectangle and whether the transform maps rectangles to rectangles ("this technique
  only works if the transform is rect -> rect").  The rounding of rectangles
  (\<open>DlRect::RoundOut\<close>, \<open>DlRect::Round\<close>) is a parameter as well, and so is the
  tracker's \<open>has_perspective\<close>.
\<close>

record 'm TrackerExternals =
  HasPerspective :: "'m \<Rightarrow> bool"
  IsAligned2D :: "'m \<Rightarrow> bool"
  TransformAndClipBounds :: "Rect \<Rightarrow> 'm \<Rightarrow> Rect"
  mapRect :: "'m \<Rightarrow> Rect \<Rightarrow> Rect \<times> bool"
  is_matrix_invertable :: "'m \<Rightarrow> bool"
  Invert :: "'m \<Rightarrow> 'm"
  TransformPoint :: "'m \<Rightarrow> Point \<Rightarrow> Point"
  RoundOut :: "Rect \<Rightarrow> Rect"
  Round :: "Rect \<Rightarrow> Rect"
  has_perspective :: "'m \<Rightarrow> bool"

subsection \<open>Operations\<close>

record 'm DisplayListMatrixClipState =
  cull_rect :: Rect
  matrix :: 'm

definition adjustCullRect ::
  "'m TrackerExternals \<Rightarrow> Rect \<Rightarrow> ClipOp \<Rightarrow> bool
     \<Rightarrow> 'm DisplayListMatrixClipState \<Rightarrow> 'm DisplayListMatrixClipState" where
  "adjustCullRect ext clip op is_aa st =
     (if IsEmpty (cull_rect st) then st
      else if HasPerspective ext (matrix st) then st
      else
        (case op of
           kIntersect \<Rightarrow>
             if IsEmpty clip then st\<lparr>cull_rect := DlRect\<rparr>
             else
               let rect = fst (mapRect ext (matrix st) clip);
                   rect = (if is_aa then RoundOut ext rect else rect)
               in st\<lparr>cull_rect := value_or (Intersection (cull_rect st) rect) DlRect\<rparr>
         | kDifference \<Rightarrow>
             if IsEmpty clip then st
             else
               (case mapRect ext (matrix st) clip of
                  (rect, rect_to_rect) \<Rightarrow>
                    if rect_to_rect
                    then
                      if is_aa
                      then (let rect = Round ext rect
                            in if IsEmpty rect then st
                               else st\<lparr>cull_rect := CutoutOrEmpty (cull_rect st) rect\<rparr>)
                      else st\<lparr>cull_rect := CutoutOrEmpty (cull_rect st) rect\<rparr>
                    else st)))"

definition clipRect ::
  "'m TrackerExternals \<Rightarrow> DlRectArg \<Rightarrow> ClipOp \<Rightarrow> bool
     \<Rightarrow> 'm DisplayListMatrixClipState \<Rightarrow> 'm DisplayListMatrixClipState" where
  "clipRect ext rect op is_aa st =
     (case rect of
        NonFiniteRect \<Rightarrow> st
      | FiniteRect r \<Rightarrow> adjustCullRect ext r op is_aa st)"


definition getLocalCullCorners ::
  "'m TrackerExternals \<Rightarrow> 'm DisplayListMatrixClipState \<Rightarrow> Point list option" where
  "getLocalCullCorners ext st =
     (if \<not> is_matrix_invertable ext (matrix st) then None
      else
        let inverse = Invert ext (matrix st); c = cull_rect st
        in Some [TransformPoint ext inverse (rect_left c, rect_top c),
                 TransformPoint ext inverse (rect_right c, rect_top c),
                 TransformPoint ext inverse (rect_right c, rect_bottom c),
                 TransformPoint ext inverse (rect_left c, rect_bottom c)])"

definition rect_covers_cull ::
  "'m TrackerExternals \<Rightarrow> Rect \<Rightarrow> 'm DisplayListMatrixClipState \<Rightarrow> bool" where
  "rect_covers_cull ext content st =
     (if IsEmpty content then False
      else if IsEmpty (cull_rect st) then True
      else if IsAligned2D ext (matrix st)
      then Contains (TransformAndClipBounds ext content (matrix st)) (cull_rect st)
      else (case getLocalCullCorners ext st of
              None \<Rightarrow> False
            | Some corners \<Rightarrow> list_all (ContainsInclusive content) corners))"

text \<open>The body of the loop of \<open>oval_covers_cull\<close>, with \<open>center\<close> and \<open>scale\<close> as
  computed before the loop.\<close>

definition oval_corner_inside :: "FloatOps \<Rightarrow> Rect \<Rightarrow> Point \<Rightarrow> bool" where
  "oval_corner_inside fo bounds corner =
     (let center = GetCenter fo bounds;
          scale = (fdiv fo 2 (fst (GetSize fo bounds)), fdiv fo 2 (snd (GetSize fo bounds)))
      in ContainsPoint bounds corner \<and>
         \<not> (1 \<le> GetLengthSquared fo
                   (fmul fo (fsub fo (fst corner) (fst center)) (fst scale),
                    fmul fo (fsub fo (snd corner) (snd center)) (snd scale))))"

definition oval_covers_cull ::
  "'m TrackerExternals \<Rightarrow> FloatOps \<Rightarrow> Rect \<Rightarrow> 'm DisplayListMatrixClipState \<Rightarrow> bool" where
  "oval_covers_cull ext fo bounds st =
     (if IsEmpty bounds then False
      else if IsEmpty (cull_rect st) then True
      else (case getLocalCullCorners ext st of
              None \<Rightarrow> False
            | Some corners \<Rightarrow> list_all (oval_corner_inside fo bounds) corners))"

definition SkRect_contains :: "Rect \<Rightarrow> Point \<Rightarrow> bool" where
  "SkRect_contains r p =
     (rect_left r \<le> fst p \<and> fst p < rect_right r \<and> rect_top r \<le> snd p \<and> snd p < rect_bottom r)"

text \<open>The body of the loop of \<open>rrect_covers_cull\<close>, with the values computed before
  the loop.\<close>

definition simple_rrect_corner_inside :: "FloatOps \<Rightarrow> SkRRect \<Rightarrow> Point \<Rightarrow> bool" where
  "simple_rrect_corner_inside fo content corner =
     (let outer = rr_bounds content;
          x_center = fst (SkRect_center fo outer);
          y_center = snd (SkRect_center fo outer);
          radii = rr_upper_left content;
          inner_x = fsub fo (fmul fo (fsub fo (rect_right outer) (rect_left outer)) (1/2))
                      (fst radii);
          inner_y = fsub fo (fmul fo (fsub fo (rect_bottom outer) (rect_top outer)) (1/2))
                      (snd radii);
          scale_x = fdiv fo 1 (fst radii);
          scale_y = fdiv fo 1 (snd radii);
          x_rel = fsub fo \<bar>fsub fo (fst corner) x_center\<bar> inner_x;
          y_rel = fsub fo \<bar>fsub fo (snd corner) y_center\<bar> inner_y
      in SkRect_contains outer corner \<and>
         \<not> (0 < x_rel \<and> 0 < y_rel \<and>
            1 \<le> fadd fo (fmul fo (fmul fo x_rel scale_x) (fmul fo x_rel scale_x))
                         (fmul fo (fmul fo y_rel scale_y) (fmul fo y_rel scale_y))))"

definition rrect_covers_cull ::
  "'m TrackerExternals \<Rightarrow> FloatOps \<Rightarrow> SkRRect \<Rightarrow> 'm DisplayListMatrixClipState \<Rightarrow> bool" where
  "rrect_covers_cull ext fo content st =
     (if rr_type content = kEmpty_Type then False
      else if IsEmpty (cull_rect st) then True
      else if rr_type content = kRect_Type then rect_covers_cull ext (rr_bounds content) st
      else if rr_type content = kOval_Type then oval_covers_cull ext fo (rr_bounds content) st
      else if rr_type content \<noteq> kSimple_Type then False
      else (case getLocalCullCorners ext st of
              None \<Rightarrow> False
            | Some corners \<Rightarrow> list_all (simple_rrect_corner_inside fo content) corners))"

definition clipOval ::
  "'m TrackerExternals \<Rightarrow> FloatOps \<Rightarrow> DlRectArg \<Rightarrow> ClipOp \<Rightarrow> bool
     \<Rightarrow> 'm DisplayListMatrixClipState \<Rightarrow> 'm DisplayListMatrixClipState" where
  "clipOval ext fo bounds op is_aa st =
     (case bounds of
        NonFiniteRect \<Rightarrow> st
      | FiniteRect b \<Rightarrow>
          (case op of
             kIntersect \<Rightarrow> adjustCullRect ext b op is_aa st
           | kDifference \<Rightarrow>
               if oval_covers_cull ext fo b st then st\<lparr>cull_rect := DlRect\<rparr> else st))"

definition clipRRect ::
  "'m TrackerExternals \<Rightarrow> FloatOps \<Rightarrow> SkRRect \<Rightarrow> ClipOp \<Rightarrow> bool
     \<Rightarrow> 'm DisplayListMatrixClipState \<Rightarrow> 'm DisplayListMatrixClipState" where
  "clipRRect ext fo rrect op is_aa st =
     (let bounds = rr_bounds rrect in
      if rr_type rrect = kRect_Type then clipRect ext (FiniteRect bounds) op is_aa st
      else
        (case op of
           kIntersect \<Rightarrow> adjustCullRect ext bounds op is_aa st
         | kDifference \<Rightarrow>
             if rrect_covers_cull ext fo rrect st then st\<lparr>cull_rect := DlRect\<rparr>
             else
               let safe = Expand fo bounds
                     (- max (fst (rr_upper_left rrect)) (fst (rr_lower_left rrect))) 0
                     (- max (fst (rr_upper_right rrect)) (fst (rr_lower_right rrect))) 0;
                   st1 = adjustCullRect ext safe op is_aa st;
                   safe = Expand fo bounds
                     0 (- max (snd (rr_upper_left rrect)) (snd (rr_upper_right rrect)))
                     0 (- max (snd (rr_lower_left rrect)) (snd (rr_lower_right rrect)))
               in adjustCullRect ext safe op is_aa st1))"





subsection \<open>Sample inputs\<close>

text \<open>
  Two transforms that map the plane \<open>z = 0\<close> to itself point by point: the identity,
  and the identity with a perspective term on \<open>z\<close>, for which \<open>HasPerspective\<close>
  holds.  Rounding is to the nearest integer, halves away from zero; rounding out
  takes the floor of left and top and the ceiling of right and bottom.
\<close>

datatype SampleMatrix = IdentityMatrix | ZPerspectiveMatrix

definition cpp_round :: "Scalar \<Rightarrow> Scalar" where
  "cpp_round x = (if 0 \<le> x then of_int \<lfloor>x + 1/2\<rfloor> else of_int \<lceil>x - 1/2\<rceil>)"

definition sample_tracker_externals :: "SampleMatrix TrackerExternals" where
  "sample_tracker_externals =
     \<lparr>HasPerspective = (\<lambda>m. m = ZPerspectiveMatrix),
      IsAligned2D = (\<lambda>m. True),
      TransformAndClipBounds = (\<lambda>r m. r),
      mapRect = (\<lambda>m r. (r, True)),
      is_matrix_invertable = (\<lambda>m. True),
      Invert = (\<lambda>m. m),
      TransformPoint = (\<lambda>m p. p),
      RoundOut = (\<lambda>r. MakeLTRB (of_int \<lfloor>rect_left r\<rfloor>) (of_int \<lfloor>rect_top r\<rfloor>)
                            (of_int \<lceil>rect_right r\<rceil>) (of_int \<lceil>rect_bottom r\<rceil>)),
      Round = (\<lambda>r. MakeLTRB (cpp_round (rect_left r)) (cpp_round (rect_top r))
                         (cpp_round (rect_right r)) (cpp_round (rect_bottom r))),
      has_perspective = (\<lambda>m. m = ZPerspectiveMatrix)\<rparr>"

definition sample_tracker :: "SampleMatrix \<Rightarrow> SampleMatrix DisplayListMatrixClipState" where
  "sample_tracker m = \<lparr>cull_rect = MakeLTRB 50 50 100 100, matrix = m\<rparr>"







section \<open>GLES reactor (impeller/renderer/backend/gles/reactor\_gles.cc)\<close>

subsection \<open>Data\<close>

text \<open>
  Modelled from the spec: the types of \<open>reactor_gles.h\<close> and \<open>handle_gles.h\<close>, which
  are not among the sources.  The reactor is "an explicit operation queue plus a
  can-this-thread-execute-now capability query".  A registered worker is a weak
  pointer: expired, or live with the answer its \<open>CanReactorReactOnCurrentThreadNow\<close>
  gives on the calling thread.  An operation is a \<open>std::function\<close> (\<open>None\<close> when it
  is empty); run, it reads the handle table and acts on the GL context \<open>'g\<close>, and
  does not call back into the reactor.  The GL entry points the reactor itself calls
  are the record \<open>ProcTableGLES\<close>.  The locks are not modelled: one thread runs.
  The members \<open>is_valid_\<close>, \<open>workers_\<close>, \<open>ops_\<close> and \<open>handles_\<close> are the fields
  \<open>reactor_valid\<close>, \<open>registered_workers\<close>, \<open>pending_ops\<close> and \<open>live_handles\<close>.
  (\<open>kUnknownType\<close> is \<open>HandleType::kUnknown\<close>.)
\<close>

datatype HandleType = kUnknownType | kTexture | kBuffer | kProgram | kRenderBuffer | kFrameBuffer

record HandleGLES =
  handle_type :: HandleType
  handle_name :: nat






subsection \<open>Operations\<close>














subsection \<open>Sample inputs\<close>





section \<open>Properties of the canvas\<close>

text \<open>
  C8: when \<open>FlipBackdrop\<close> cannot end the current render pass, or cannot fetch the
  backdrop colour texture, it returns null and the render-pass stack is what it was
  before the call: same size, with the failed pass configuration back on top.
\<close>

theorem FlipBackdrop_failure_keeps_render_passes:
  assumes "passes \<noteq> []"
    and "\<not> end_pass_ok env \<or> color_texture env = None"
  shows "FlipBackdrop env passes = Some (None, passes)"
proof -
  from assms(1) obtain c popped where p: "passes = c # popped"
    by (cases passes) auto
  have same: "MakeLazyRenderingConfig (entity_pass_target c) (inline_pass_context c) = c"
    by (simp add: MakeLazyRenderingConfig_def)
  from assms(2) show ?thesis
    by (auto simp: FlipBackdrop_def p same Let_def split: option.splits)
qed

theorem FlipBackdrop_failure_witness:
  "FlipBackdrop \<lparr>end_pass_ok = False, color_texture = Some 7, backdrop_render_ok = True\<rparr>
     [\<lparr>entity_pass_target = 1, inline_pass_context = 1\<rparr>,
      \<lparr>entity_pass_target = 0, inline_pass_context = 0\<rparr>]
   = Some (None, [\<lparr>entity_pass_target = 1, inline_pass_context = 1\<rparr>,
                  \<lparr>entity_pass_target = 0, inline_pass_context = 0\<rparr>])"
  using FlipBackdrop_failure_keeps_render_passes
    [of "[\<lparr>entity_pass_target = 1, inline_pass_context = 1\<rparr>,
          \<lparr>entity_pass_target = 0, inline_pass_context = 0\<rparr>]"
        "\<lparr>end_pass_ok = False, color_texture = Some 7, backdrop_render_ok = True\<rparr>"]
  by simp

subsection \<open>Depth budgets\<close>


lemma frames_ok_mono:
  "frames_ok c bs fs \<Longrightarrow> c' \<le> c \<Longrightarrow> frames_ok c' bs fs"
  by (cases "(c, bs, fs)" rule: frames_ok.cases) auto

lemma frames_ok_budget_mono:
  "frames_ok c (b # bs) fs \<Longrightarrow> b' \<le> b \<Longrightarrow> frames_ok c (b' # bs) fs"
  by (cases fs) auto

lemma stamps_increasing_mono:
  "stamps_increasing c s \<Longrightarrow> c' \<le> c \<Longrightarrow> stamps_increasing c' s"
  by (cases s) auto


lemma FlipBackdrop_success:
  "flip_succeeds env \<Longrightarrow> passes \<noteq> [] \<Longrightarrow>
   \<exists>t. FlipBackdrop env passes = Some (Some t, passes)"
  by (cases passes) (auto simp: FlipBackdrop_def flip_succeeds_def Let_def MakeLazyRenderingConfig_def)

lemma FlipBackdrop_length:
  "FlipBackdrop env passes = Some (r, passes') \<Longrightarrow> passes' = passes \<and> passes \<noteq> []"
  by (cases passes) (auto simp: FlipBackdrop_def Let_def MakeLazyRenderingConfig_def split: if_splits option.splits)

lemma Save_step:
  assumes "budget_inv (b # bs) st" "d \<le> b"
  shows "\<exists>st'. Save ext d st = Some st' \<and> budget_inv (d # (b - d) # bs) st' \<and> current_depth st' = current_depth st"
  using assms
  apply (cases "transform_stack st")
   apply (auto simp: budget_inv_def canvas_wf_def Save_def SkipUntilMatchingRestore_def default_entry_def is_subpass_entry_def)
  done


lemma GetLocalCoverageLimit_defined:
  "render_passes st \<noteq> [] \<Longrightarrow> \<exists>r. GetLocalCoverageLimit env st = Some r"
  by (cases "render_passes st")
     (auto simp: GetLocalCoverageLimit_def split: option.splits)

lemma SaveLayer_step:
  assumes inv: "budget_inv (b # bs) st" and d: "Suc d \<le> b"
    and flip: "flip_succeeds (save_layer_flip env)"
  shows "\<exists>st'. SaveLayer ext env paint backdrop promise d distribute st = Some st' \<and>
               budget_inv (d # (b - Suc d) # bs) st' \<and> current_depth st' = current_depth st"
proof -
  from inv obtain f0 rest where ts: "transform_stack st = f0 # rest"
    by (cases "transform_stack st") (auto simp: budget_inv_def canvas_wf_def)
  from inv have rp: "render_passes st \<noteq> []"
    by (auto simp: budget_inv_def canvas_wf_def)
  from GetLocalCoverageLimit_defined [OF rp] obtain r
    where lim: "GetLocalCoverageLimit (coverage_env env) st = Some r" by blast
  from FlipBackdrop_success [OF flip rp] obtain t
    where fb: "FlipBackdrop (save_layer_flip env) (render_passes st) = Some (Some t, render_passes st)"
    by blast
  show ?thesis
    using inv d ts lim fb
    by (auto simp: SaveLayer_def budget_inv_def canvas_wf_def Save_def
          SkipUntilMatchingRestore_def default_entry_def is_subpass_entry_def
          scale_back_distributed_opacity_def Let_def
          split: option.splits)
qed

lemma Restore_step:
  assumes inv: "budget_inv (b # bs) st"
    and flip: "restore_composites env"
  shows "\<exists>ok st'. Restore env st = Some (ok, st') \<and>
               budget_inv (case bs of [] \<Rightarrow> [b] | _ # _ \<Rightarrow> bs) st' \<and>
               current_depth st \<le> current_depth st'"
proof -
  from inv obtain f0 rest where ts: "transform_stack st = f0 # rest"
    by (cases "transform_stack st") (auto simp: budget_inv_def canvas_wf_def)
  show ?thesis
  proof (cases rest)
    case Nil
    with inv ts show ?thesis
      by (cases bs) (auto simp: Restore_def budget_inv_def)
  next
    case (Cons f fs)
    with inv ts obtain b1 bs1 where bs: "bs = b1 # bs1"
      by (cases bs) (auto simp: budget_inv_def)
    show ?thesis
    proof (cases "is_subpass_entry f0")
      case False
      with inv ts Cons bs show ?thesis
        by (auto simp: Restore_def budget_inv_def canvas_wf_def Let_def is_subpass_entry_def)
    next
      case True
      with inv ts Cons obtain p1 p2 ps l ls where
        rp: "render_passes st = p1 # p2 # ps" and sl: "save_layer_state st = l # ls"
        by (cases "render_passes st"; cases "tl (render_passes st)"; cases "save_layer_state st")
           (auto simp: budget_inv_def canvas_wf_def)
      show ?thesis
      proof (cases "restore_supports_framebuffer_fetch env")
        case fetch: True
        with True inv ts Cons bs rp sl show ?thesis
          by (auto simp: Restore_def budget_inv_def canvas_wf_def Let_def is_subpass_entry_def)
      next
        case False
        with flip have "flip_succeeds (restore_flip env)"
          by (simp add: restore_composites_def)
        from FlipBackdrop_success [OF this, of "p2 # ps"] obtain t
          where fb: "FlipBackdrop (restore_flip env) (p2 # ps) = Some (Some t, p2 # ps)"
          by auto
        from True inv ts Cons bs rp sl fb show ?thesis
          by (auto simp: Restore_def budget_inv_def canvas_wf_def Let_def is_subpass_entry_def)
      qed
    qed
  qed
qed

lemma Draw_step:
  assumes inv: "budget_inv (b # bs) st" and d: "reuse \<or> 1 \<le> b"
  shows "\<exists>st' e outcome. AddRenderEntityToCurrentPass ext env entity reuse st = Some (st', e, outcome) \<and>
               budget_inv (if reuse then b # bs else (b - 1) # bs) st' \<and>
               current_depth st \<le> current_depth st' \<and>
               (stamped outcome \<longrightarrow> entity_clip_depth e = current_depth st' \<and>
                   (reuse \<or> current_depth st < current_depth st'))"
proof -
  from inv obtain f0 rest where ts: "transform_stack st = f0 # rest"
    by (cases "transform_stack st") (auto simp: budget_inv_def canvas_wf_def)
  from inv obtain p ps where rp: "render_passes st = p # ps"
    by (cases "render_passes st") (auto simp: budget_inv_def canvas_wf_def)
  have fb: "\<exists>r. FlipBackdrop (draw_flip env) (p # ps) = Some (r, p # ps)"
    by (auto simp: FlipBackdrop_def Let_def MakeLazyRenderingConfig_def split: option.splits)
  then obtain r where fb': "FlipBackdrop (draw_flip env) (p # ps) = Some (r, p # ps)" by blast
  show ?thesis
    using inv d ts rp fb'
    by (cases r)
       (auto simp: AddRenderEntityToCurrentPass_def budget_inv_def canvas_wf_def Let_def
          stamped_def ApplyFramebufferBlend_def)
qed


lemma budget_inv_nonempty: "budget_inv bs st \<Longrightarrow> bs \<noteq> []"
  by (cases bs; cases "transform_stack st") (auto simp: budget_inv_def canvas_wf_def)

lemma budget_inv_depth_within_clip: "budget_inv bs st \<Longrightarrow> depth_within_clip st"
  by (cases bs; cases "transform_stack st") (auto simp: budget_inv_def canvas_wf_def depth_within_clip_def)

lemma budget_inv_weaken:
  "budget_inv (b # bs) st \<Longrightarrow> b' \<le> b \<Longrightarrow> budget_inv (b' # bs) st"
  by (auto simp: budget_inv_def intro: frames_ok_budget_mono)

lemma exec_op_step:
  assumes inv: "budget_inv bs st" and step: "budget_step bs op = Some bs'"
    and flips: "flips_succeed op"
  shows "\<exists>st' s. exec_op ext op st = Some (st', s) \<and> budget_inv bs' st' \<and>
                 current_depth st \<le> current_depth st' \<and>
                 stamps_increasing (current_depth st) s \<and>
                 (\<forall>x \<in> set s. fst x = current_depth st')"
proof -
  from budget_inv_nonempty [OF inv] obtain b bs0 where bs: "bs = b # bs0"
    by (cases bs) auto
  show ?thesis
  proof (cases op)
    case (OpSave d)
    with step bs have d: "d \<le> b" and bs': "bs' = d # (b - d) # bs0"
      by (auto split: if_splits)
    from Save_step [OF inv [unfolded bs] d, of ext] OpSave bs' show ?thesis
      by auto
  next
    case (OpSaveLayer env paint backdrop promise d distribute)
    with step bs have d: "Suc d \<le> b" and bs': "bs' = d # (b - Suc d) # bs0"
      by (auto split: if_splits)
    from flips OpSaveLayer have f: "flip_succeeds (save_layer_flip env)" by simp
    from SaveLayer_step [OF inv [unfolded bs] d f, of ext paint backdrop promise distribute]
      OpSaveLayer bs' show ?thesis
      by auto
  next
    case (OpRestore env)
    with step bs have bs': "bs' = (case bs0 of [] \<Rightarrow> [b] | _ # _ \<Rightarrow> bs0)"
      by (auto split: list.splits)
    from flips OpRestore have f: "restore_composites env" by simp
    from Restore_step [OF inv [unfolded bs] f] OpRestore bs' show ?thesis
      by auto
  next
    case (OpDraw env entity reuse)
    with step bs have d: "reuse \<or> 1 \<le> b"
      and bs': "bs' = (if reuse then b # bs0 else (b - 1) # bs0)"
      by (auto split: if_splits)
    from Draw_step [OF inv [unfolded bs] d, of ext env entity] obtain st' e outcome where
      r: "AddRenderEntityToCurrentPass ext env entity reuse st = Some (st', e, outcome)"
      and i: "budget_inv (if reuse then b # bs0 else (b - 1) # bs0) st'"
      and c: "current_depth st \<le> current_depth st'"
      and s: "stamped outcome \<longrightarrow> entity_clip_depth e = current_depth st' \<and>
                   (reuse \<or> current_depth st < current_depth st')"
      by blast
    from r i c s OpDraw bs' show ?thesis
      by auto
  qed
qed

lemma run_within_budget:
  assumes "budget_ok bs ops" and "budget_inv bs st" and "list_all flips_succeed ops"
  shows "\<exists>st' stamps bs'. run ext ops st = Some (st', stamps) \<and> budget_inv bs' st' \<and>
           current_depth st \<le> current_depth st' \<and>
           stamps_increasing (current_depth st) stamps"
  using assms
proof (induction ops arbitrary: bs st)
  case Nil
  then show ?case by auto
next
  case (Cons op ops)
  from Cons.prems(1) obtain bs1 where step: "budget_step bs op = Some bs1"
    and rest: "budget_ok bs1 ops"
    by (auto split: option.splits)
  from Cons.prems(3) have f: "flips_succeed op" and fs: "list_all flips_succeed ops"
    by auto
  from exec_op_step [OF Cons.prems(2) step f, of ext] obtain st1 s1 where
    e: "exec_op ext op st = Some (st1, s1)" and i1: "budget_inv bs1 st1"
    and c1: "current_depth st \<le> current_depth st1"
    and inc1: "stamps_increasing (current_depth st) s1"
    and all1: "\<forall>x \<in> set s1. fst x = current_depth st1"
    by blast
  from Cons.IH [OF rest i1 fs] obtain st2 s2 bs2 where
    r: "run ext ops st1 = Some (st2, s2)" and i2: "budget_inv bs2 st2"
    and c2: "current_depth st1 \<le> current_depth st2"
    and inc2: "stamps_increasing (current_depth st1) s2"
    by blast
  have "stamps_increasing (current_depth st) (s1 @ s2)"
  proof (cases s1)
    case Nil
    with inc2 c1 show ?thesis by (auto intro: stamps_increasing_mono)
  next
    case (Cons x xs)
    have one: "exec_op ext op st = Some (st1, s1) \<Longrightarrow> length s1 \<le> 1"
      by (cases op) (auto split: option.splits)
    from one [OF e] Cons have xs: "xs = []" by simp
    from all1 Cons have "fst x = current_depth st1" by simp
    with inc1 inc2 Cons xs show ?thesis by (cases x) auto
  qed
  with e r i2 c1 c2 show ?case
    by (intro exI [of _ st2] exI [of _ "s1 @ s2"] exI [of _ bs2]) auto
qed

lemma budget_ok_take: "budget_ok bs ops \<Longrightarrow> budget_ok bs (take n ops)"
proof (induction ops arbitrary: bs n)
  case Nil
  then show ?case by simp
next
  case (Cons op ops)
  then show ?case by (cases n) (auto split: option.splits)
qed

lemma NewCanvas_budget_inv: "budget_inv [kMaxDepth] (NewCanvas ext kMaxDepth rr)"
  by (auto simp: budget_inv_def canvas_wf_def NewCanvas_def Initialize_def default_entry_def
        is_subpass_entry_def MakeLazyRenderingConfig_def Let_def)

text \<open>
  C1 (as amended): on a new canvas, for a sequence of calls whose depth budgets hold in
  the sense of \<open>budget_ok\<close> (the reserved depth of each \<open>Save\<close> or \<open>SaveLayer\<close>
  bounds the depth consumed before its matching \<open>Restore\<close>, where a nested scope
  counts for the whole depth it reserves, one more for a \<open>SaveLayer\<close>, and a draw
  that does not reuse the depth counts for one) and in which no backdrop flip of a
  \<open>SaveLayer\<close> or \<open>Restore\<close> fails: after every prefix of the sequence the current
  depth is within the \<open>clip_depth\<close> of the innermost open frame, and the depths
  stamped by \<open>AddRenderEntityToCurrentPass\<close> increase in call order, strictly at each
  draw that does not reuse the depth.
\<close>

theorem depth_within_budget:
  assumes "budget_ok [kMaxDepth] ops" and "list_all flips_succeed ops"
  shows "\<forall>n. \<exists>st' stamps.
           run ext (take n ops) (NewCanvas ext kMaxDepth requires_readback) = Some (st', stamps) \<and>
           depth_within_clip st' \<and> stamps_increasing 0 stamps"
proof
  fix n
  from assms(2) have fl: "list_all flips_succeed (take n ops)"
    by (auto simp: list_all_iff dest: in_set_takeD)
  from run_within_budget [OF budget_ok_take [OF assms(1)] NewCanvas_budget_inv fl, where ext = ext]
  obtain st' stamps bs' where
    r: "run ext (take n ops) (NewCanvas ext kMaxDepth requires_readback) = Some (st', stamps)"
    and i: "budget_inv bs' st'"
    and s: "stamps_increasing (current_depth (NewCanvas ext kMaxDepth requires_readback)) stamps"
    by blast
  have "current_depth (NewCanvas ext kMaxDepth requires_readback) = 0"
    by (simp add: NewCanvas_def Initialize_def Let_def)
  with r i s show "\<exists>st' stamps.
           run ext (take n ops) (NewCanvas ext kMaxDepth requires_readback) = Some (st', stamps) \<and>
           depth_within_clip st' \<and> stamps_increasing 0 stamps"
    by (auto dest: budget_inv_depth_within_clip)
qed

lemmas sample_defs = flip_ok_def flip_end_pass_fails_def full_coverage_def no_coverage_def
  layer_env_def restore_env_def draw_env_def plain_paint_def sample_entity_def
  translation_externals_def

lemmas canvas_defs = NewCanvas_def Initialize_def default_entry_def MakeLazyRenderingConfig_def
  Save_def SaveLayer_def Restore_def AddRenderEntityToCurrentPass_def SkipUntilMatchingRestore_def
  FlipBackdrop_def GetLocalCoverageLimit_def GetGlobalPassPosition_def prepare_entity_def
  scale_back_distributed_opacity_def CanApplyOpacityPeephole_def exceeds_kLastPipelineBlendMode_def
  ApplyFramebufferBlend_def stamped_def Intersection_def IntersectsWithRect_def IsEmpty_def
  MakeLTRB_def MakeOriginSize_def MakeSize_def GetOrigin_def Let_def

theorem depth_within_budget_witness:
  "budget_ok [10] budgeted_ops \<and> list_all flips_succeed budgeted_ops \<and>
   (\<forall>n. \<exists>st' stamps.
       run translation_externals (take n budgeted_ops)
         (NewCanvas translation_externals 10 False) = Some (st', stamps) \<and>
       depth_within_clip st' \<and> stamps_increasing 0 stamps)"
proof -
  have b: "budget_ok [10] budgeted_ops"
    by (simp add: budgeted_ops_def)
  have f: "list_all flips_succeed budgeted_ops"
    by (simp add: budgeted_ops_def sample_defs restore_composites_def flip_succeeds_def)
  from depth_within_budget [OF b f] b f show ?thesis
    by blast
qed

text \<open>
  C1 as it is worded fails: in \<open>Save(1); Save(1); Restore; Draw\<close> each reserved
  depth bounds the draws before the matching \<open>Restore\<close> (none inside the inner scope,
  one inside the outer), yet the inner \<open>Restore\<close> moves the counter to the inner
  ceiling 1 and the draw is stamped 2, above the outer ceiling 1.
\<close>

theorem nested_reservation_exceeds_clip_depth:
  "reserved_depth_bounds_draws nested_reservation_ops \<and>
   list_all flips_succeed nested_reservation_ops \<and>
   (case run translation_externals nested_reservation_ops
           (NewCanvas translation_externals 10 False) of
      None \<Rightarrow> False
    | Some (st', stamps) \<Rightarrow>
        stamps = [(2, False)] \<and> current_depth st' = 2 \<and>
        map clip_depth (transform_stack st') = [1, 10] \<and> \<not> depth_within_clip st')"
  by (simp add: nested_reservation_ops_def sample_defs restore_composites_def flip_succeeds_def
        canvas_defs depth_within_clip_def)

subsection \<open>Save count\<close>

text \<open>
  C2 at its failing inputs.  After \<open>Save\<close> the count is 2.  A \<open>SaveLayer\<close> with a
  backdrop filter whose \<open>FlipBackdrop\<close> cannot end the pass returns without pushing a
  frame, so the count stays 2 and the matching \<open>Restore\<close> pops the frame of the
  enclosing \<open>Save\<close>: the balanced pair leaves 1, not 2.  And a \<open>Restore\<close> of a
  subpass with an advanced blend whose \<open>FlipBackdrop\<close> fails returns false without
  popping: the balanced pair leaves 2 on a canvas that had 1.
\<close>

theorem backdrop_flip_failure_unbalances_save_count:
  "balanced 0 [OpSaveLayer (layer_env full_coverage flip_end_pass_fails)
                 (plain_paint 1 kSourceOver) True kUnknown 1 False,
               OpRestore (restore_env flip_ok) :: Point CanvasOp] \<and>
   map_option (GetSaveCount \<circ> fst)
     (run translation_externals [OpSave 5] (NewCanvas translation_externals 10 False)) = Some 2 \<and>
   map_option (GetSaveCount \<circ> fst)
     (run translation_externals
        [OpSave 5,
         OpSaveLayer (layer_env full_coverage flip_end_pass_fails)
           (plain_paint 1 kSourceOver) True kUnknown 1 False]
        (NewCanvas translation_externals 10 False)) = Some 2 \<and>
   map_option (GetSaveCount \<circ> fst)
     (run translation_externals
        [OpSave 5,
         OpSaveLayer (layer_env full_coverage flip_end_pass_fails)
           (plain_paint 1 kSourceOver) True kUnknown 1 False,
         OpRestore (restore_env flip_ok)]
        (NewCanvas translation_externals 10 False)) = Some 1 \<and>
   balanced 0 [OpSaveLayer (layer_env full_coverage flip_ok)
                 (plain_paint 1 (kAdvancedBlend 0)) False kUnknown 1 False,
               OpRestore (restore_env flip_end_pass_fails) :: Point CanvasOp] \<and>
   map_option (GetSaveCount \<circ> fst)
     (run translation_externals
        [OpSaveLayer (layer_env full_coverage flip_ok)
           (plain_paint 1 (kAdvancedBlend 0)) False kUnknown 1 False,
         OpRestore (restore_env flip_end_pass_fails)]
        (NewCanvas translation_externals 10 False)) = Some 2"
  by (simp add: sample_defs canvas_defs GetSaveCount_def)

subsection \<open>Opacity peephole\<close>

text \<open>
  C3 (as amended): when the canvas is not skipping and the local coverage limit is not
  empty, a \<open>SaveLayer\<close> with \<open>can_distribute_opacity\<close>, no backdrop filter, a paint
  that only varies alpha and a bounds promise other than \<open>kMayClipContents\<close> is a
  plain \<open>Save\<close> followed by the multiplication of the new frame's
  \<open>distributed_opacity\<close> by the paint's alpha; no render target is created and the
  render-pass stack and the save-layer-state stack are unchanged.
\<close>

theorem SaveLayer_opacity_peephole:
  assumes ts: "transform_stack st = f0 # rest" and ns: "\<not> skipping f0"
    and lim: "GetLocalCoverageLimit (coverage_env env) st = Some (Some coverage_limit)"
    and peep: "can_distribute_opacity" "\<not> backdrop_filter" "CanApplyOpacityPeephole paint"
              "bounds_promise \<noteq> kMayClipContents"
  shows "SaveLayer ext env paint backdrop_filter bounds_promise total_content_depth
           can_distribute_opacity st
         = Option.bind (Save ext total_content_depth st)
             (scale_back_distributed_opacity (color_alpha paint))
       \<and> (\<exists>st1 st2. Save ext total_content_depth st = Some st1 \<and>
             scale_back_distributed_opacity (color_alpha paint) st1 = Some st2 \<and>
             SaveLayer ext env paint backdrop_filter bounds_promise total_content_depth
               can_distribute_opacity st = Some st2 \<and>
             render_passes st2 = render_passes st \<and>
             save_layer_state st2 = save_layer_state st \<and>
             targets_created st2 = targets_created st \<and>
             tl (transform_stack st2) = transform_stack st \<and>
             distributed_opacity (hd (transform_stack st2))
               = distributed_opacity f0 * color_alpha paint)"
  using assms
  by (simp add: SaveLayer_def Save_def scale_back_distributed_opacity_def default_entry_def)

theorem SaveLayer_opacity_peephole_witness:
  "SaveLayer translation_externals (layer_env full_coverage flip_ok) (plain_paint (1/2) kSourceOver)
      False kContainsContents 2 True (NewCanvas translation_externals 10 False)
   = Option.bind (Save translation_externals 2 (NewCanvas translation_externals 10 False))
       (scale_back_distributed_opacity (1/2))
   \<and> map_option (\<lambda>st. (map distributed_opacity (transform_stack st), render_passes st,
                        save_layer_state st, targets_created st))
        (SaveLayer translation_externals (layer_env full_coverage flip_ok)
           (plain_paint (1/2) kSourceOver) False kContainsContents 2 True
           (NewCanvas translation_externals 10 False))
     = Some ([1/2, 1], [\<lparr>entity_pass_target = 0, inline_pass_context = 0\<rparr>], [], 0)"
proof -
  let ?st = "NewCanvas translation_externals 10 False"
  let ?f0 = "(default_entry translation_externals)\<lparr>clip_depth := 10\<rparr>"
  have ts: "transform_stack ?st = ?f0 # []"
    by (simp add: NewCanvas_def Initialize_def Let_def)
  have ns: "\<not> skipping ?f0"
    by (simp add: default_entry_def)
  have lim: "GetLocalCoverageLimit (coverage_env (layer_env full_coverage flip_ok)) ?st
             = Some (Some (MakeLTRB 0 0 100 100))"
    by (simp add: sample_defs canvas_defs)
  have p: "CanApplyOpacityPeephole (plain_paint (1/2) kSourceOver)"
    by (simp add: plain_paint_def CanApplyOpacityPeephole_def)
  from SaveLayer_opacity_peephole [OF ts ns lim, of True False "plain_paint (1/2) kSourceOver"
      kContainsContents translation_externals 2] p
  show ?thesis
    by (auto simp: sample_defs canvas_defs)
qed

text \<open>
  C3 as it is worded fails where the guards before the peephole fire: with no clip
  coverage left, \<open>SaveLayer\<close> pushes a skipping frame, which a plain \<open>Save\<close> on
  the same canvas does not.
\<close>

theorem SaveLayer_peephole_not_plain_Save_counterexample:
  "CanApplyOpacityPeephole (plain_paint (1/2) kSourceOver) \<and>
   map_option (map skipping \<circ> transform_stack)
     (SaveLayer translation_externals (layer_env no_coverage flip_ok)
        (plain_paint (1/2) kSourceOver) False kContainsContents 2 True
        (NewCanvas translation_externals 10 False)) = Some [True, False] \<and>
   map_option (map skipping \<circ> transform_stack)
     (Option.bind (Save translation_externals 2 (NewCanvas translation_externals 10 False))
        (scale_back_distributed_opacity (1/2))) = Some [False, False] \<and>
   SaveLayer translation_externals (layer_env no_coverage flip_ok)
        (plain_paint (1/2) kSourceOver) False kContainsContents 2 True
        (NewCanvas translation_externals 10 False)
   \<noteq> Option.bind (Save translation_externals 2 (NewCanvas translation_externals 10 False))
        (scale_back_distributed_opacity (1/2))"
  by (simp add: sample_defs canvas_defs)

subsection \<open>Blend rewrite\<close>

lemma FlipBackdrop_cases:
  "FlipBackdrop env passes = None \<or> (\<exists>r. FlipBackdrop env passes = Some (r, passes))"
  by (cases passes) (auto simp: FlipBackdrop_def Let_def MakeLazyRenderingConfig_def split: option.splits)

text \<open>
  C7: in a call of \<open>AddRenderEntityToCurrentPass\<close> that gets past the skipping
  guard, the rewrite step (\<open>prepare_entity\<close>) turns \<open>kSourceOver\<close> into \<open>kSource\<close>
  exactly when the contents report \<open>IsOpaque\<close> for the entity's (rebased) transform,
  and leaves every other blend mode as it is; the entity leaves the call with
  \<open>kSource\<close> in the first case, with \<open>kSourceOver\<close> when the contents are not
  opaque, and with its own blend mode otherwise unless that is an advanced blend
  (which the later emulation step replaces).
\<close>

theorem opaque_source_over_rewritten_to_source:
  assumes call: "AddRenderEntityToCurrentPass ext env entity reuse_depth st = Some (st', e, outcome)"
    and reached: "outcome \<noteq> Skipped"
    and top: "transform_stack st = f0 # rest"
  shows "entity_blend_mode (prepare_entity ext st (distributed_opacity f0) entity) =
           (if entity_blend_mode entity = kSourceOver \<and>
               IsOpaque ext (entity_contents entity)
                 (entity_transform (prepare_entity ext st (distributed_opacity f0) entity))
            then kSource else entity_blend_mode entity)
         \<and> (if entity_blend_mode entity = kSourceOver
            then entity_blend_mode e =
                   (if IsOpaque ext (entity_contents entity)
                         (entity_transform (prepare_entity ext st (distributed_opacity f0) entity))
                    then kSource else kSourceOver)
            else exceeds_kLastPipelineBlendMode (entity_blend_mode entity) \<or>
                 entity_blend_mode e = entity_blend_mode entity)"
proof -
  have prep: "entity_blend_mode (prepare_entity ext st (distributed_opacity f0) entity) =
           (if entity_blend_mode entity = kSourceOver \<and>
               IsOpaque ext (entity_contents entity)
                 (entity_transform (prepare_entity ext st (distributed_opacity f0) entity))
            then kSource else entity_blend_mode entity)"
    by (simp add: prepare_entity_def Let_def)
  from call reached top obtain p ps where rp: "render_passes st = p # ps"
    by (cases "render_passes st") (auto simp: AddRenderEntityToCurrentPass_def split: if_splits)
  let ?e = "prepare_entity ext st (distributed_opacity f0) entity"
  from call reached top rp have
    "entity_blend_mode e = entity_blend_mode ?e \<or>
     exceeds_kLastPipelineBlendMode (entity_blend_mode ?e)"
    using FlipBackdrop_cases [of "draw_flip env" "p # ps"]
    by (auto simp: AddRenderEntityToCurrentPass_def Let_def ApplyFramebufferBlend_def
             split: if_splits option.splits)
  with prep show ?thesis
    by (auto simp: exceeds_kLastPipelineBlendMode_def split: if_splits)
qed

theorem opaque_source_over_witness:
  "AddRenderEntityToCurrentPass translation_externals draw_env (sample_entity kSourceOver 2) False
     (NewCanvas translation_externals 10 False)
   = Some ((NewCanvas translation_externals 10 False)\<lparr>current_depth := 1\<rparr>,
           (sample_entity kSourceOver 2)\<lparr>entity_blend_mode := kSource, entity_clip_depth := 1\<rparr>,
           Rendered)
   \<and> entity_blend_mode
       (prepare_entity translation_externals (NewCanvas translation_externals 10 False) 1
          (sample_entity kSourceOver 2)) = kSource"
proof -
  let ?st = "NewCanvas translation_externals 10 False"
  let ?f0 = "(default_entry translation_externals)\<lparr>clip_depth := 10\<rparr>"
  have ts: "transform_stack ?st = ?f0 # []"
    by (simp add: NewCanvas_def Initialize_def Let_def)
  have call: "AddRenderEntityToCurrentPass translation_externals draw_env
      (sample_entity kSourceOver 2) False ?st
     = Some (?st\<lparr>current_depth := 1\<rparr>,
           (sample_entity kSourceOver 2)\<lparr>entity_blend_mode := kSource, entity_clip_depth := 1\<rparr>,
           Rendered)"
    by (simp add: sample_defs canvas_defs)
  have o: "Rendered \<noteq> Skipped" by simp
  from opaque_source_over_rewritten_to_source [OF call o ts] call
  show ?thesis
    by (simp add: sample_defs canvas_defs)
qed

subsection \<open>Restore at the root and RestoreToCount\<close>

lemma Restore_pops:
  assumes wf: "canvas_wf st" and c: "restore_composites env" and n: "1 < GetSaveCount st"
  shows "\<exists>st'. Restore env st = Some (True, st') \<and> canvas_wf st' \<and>
           GetSaveCount st' = GetSaveCount st - 1"
proof -
  from n obtain f0 f1 fs where ts: "transform_stack st = f0 # f1 # fs"
    by (cases "transform_stack st"; cases "tl (transform_stack st)") (auto simp: GetSaveCount_def)
  show ?thesis
  proof (cases "is_subpass_entry f0")
    case False
    with wf ts show ?thesis
      by (auto simp: Restore_def canvas_wf_def Let_def is_subpass_entry_def GetSaveCount_def)
  next
    case True
    with wf ts obtain p1 p2 ps l ls where
      rp: "render_passes st = p1 # p2 # ps" and sl: "save_layer_state st = l # ls"
      by (cases "render_passes st"; cases "tl (render_passes st)"; cases "save_layer_state st")
         (auto simp: canvas_wf_def)
    show ?thesis
    proof (cases "restore_supports_framebuffer_fetch env")
      case fetch: True
      with True wf ts rp sl show ?thesis
        by (auto simp: Restore_def canvas_wf_def Let_def is_subpass_entry_def GetSaveCount_def)
    next
      case False
      with c have "flip_succeeds (restore_flip env)"
        by (simp add: restore_composites_def)
      from FlipBackdrop_success [OF this, of "p2 # ps"] obtain t
        where fb: "FlipBackdrop (restore_flip env) (p2 # ps) = Some (Some t, p2 # ps)"
        by auto
      from True wf ts rp sl fb show ?thesis
        by (auto simp: Restore_def canvas_wf_def Let_def is_subpass_entry_def GetSaveCount_def)
    qed
  qed
qed

lemma RestoreToCount_count:
  assumes "canvas_wf st" and "\<forall>k. restore_composites (envs k)"
  shows "\<exists>st'. RestoreToCount envs n st = Some st' \<and> canvas_wf st' \<and>
           GetSaveCount st' = min (GetSaveCount st) (max n 1)"
  using assms
proof (induction "GetSaveCount st" arbitrary: st rule: less_induct)
  case less
  have pos: "1 \<le> GetSaveCount st"
    using less.prems(1) by (cases "transform_stack st") (auto simp: canvas_wf_def GetSaveCount_def)
  show ?case
  proof (cases "n < GetSaveCount st")
    case False
    with pos less.prems(1) show ?thesis
      by (subst RestoreToCount.simps) auto
  next
    case True
    show ?thesis
    proof (cases "GetSaveCount st = 1")
      case one: True
      then obtain f0 where "transform_stack st = [f0]"
        by (cases "transform_stack st") (auto simp: GetSaveCount_def)
      then have "Restore (envs (GetSaveCount st)) st = Some (False, st)"
        by (simp add: Restore_def)
      with True one less.prems(1) show ?thesis
        by (subst RestoreToCount.simps) auto
    next
      case False
      with pos have gt: "1 < GetSaveCount st" by simp
      from less.prems(2) have c: "restore_composites (envs (GetSaveCount st))" by simp
      from Restore_pops [OF less.prems(1) c gt] obtain st1 where
        r: "Restore (envs (GetSaveCount st)) st = Some (True, st1)" and wf1: "canvas_wf st1"
        and c1: "GetSaveCount st1 = GetSaveCount st - 1" by blast
      from c1 gt have lt: "GetSaveCount st1 < GetSaveCount st" by simp
      from less.hyps [OF lt wf1 less.prems(2)] obtain st' where
        "RestoreToCount envs n st1 = Some st'" "canvas_wf st'"
        "GetSaveCount st' = min (GetSaveCount st1) (max n 1)" by blast
      with True r c1 gt show ?thesis
        by (subst RestoreToCount.simps) auto
    qed
  qed
qed

text \<open>
  C10 (as amended): \<open>Restore\<close> with only the root frame open returns false and
  leaves the canvas as it is.  \<open>RestoreToCount n\<close> terminates for every \<open>n\<close> (the
  function is total), and on a well-formed canvas where every \<open>Restore\<close> it makes
  can composite its subpass, it returns with the save count at
  \<open>min (count before) (max n 1)\<close>.
\<close>

theorem Restore_at_root_and_RestoreToCount:
  assumes "canvas_wf st" and "\<forall>k. restore_composites (envs k)"
  shows "(GetSaveCount st = 1 \<longrightarrow> Restore env st = Some (False, st))
       \<and> (\<exists>st'. RestoreToCount envs n st = Some st' \<and>
              GetSaveCount st' = min (GetSaveCount st) (max n 1))"
proof -
  have "GetSaveCount st = 1 \<longrightarrow> Restore env st = Some (False, st)"
    by (cases "transform_stack st"; cases "tl (transform_stack st)")
       (auto simp: GetSaveCount_def Restore_def)
  with RestoreToCount_count [OF assms] show ?thesis by blast
qed

theorem Restore_at_root_and_RestoreToCount_witness:
  "canvas_wf three_scopes \<and> GetSaveCount three_scopes = 4 \<and>
   map_option GetSaveCount (RestoreToCount (\<lambda>k. restore_env flip_ok) 2 three_scopes) = Some 2 \<and>
   Restore (restore_env flip_ok) (NewCanvas translation_externals 10 False)
     = Some (False, NewCanvas translation_externals 10 False)"
proof -
  have ts: "three_scopes =
    \<lparr>transform_stack =
      [(default_entry translation_externals)\<lparr>clip_depth := 1\<rparr>,
       (default_entry translation_externals)
         \<lparr>clip_depth := 1, rendering_mode := kSubpassAppendSnapshotTransform,
          did_round_out := True\<rparr>,
       (default_entry translation_externals)\<lparr>clip_depth := 3\<rparr>,
       (default_entry translation_externals)\<lparr>clip_depth := 10\<rparr>],
     current_depth = 0,
     render_passes = [MakeLazyRenderingConfig 1 1, MakeLazyRenderingConfig 0 0],
     save_layer_state = [\<lparr>sls_paint = plain_paint (1/2) kSourceOver,
                           sls_coverage = MakeLTRB 0 0 100 100\<rparr>],
     targets_created = 1\<rparr>"
    by (simp add: three_scopes_def sample_defs canvas_defs)
  have wf: "canvas_wf three_scopes"
    by (simp add: ts canvas_wf_def is_subpass_entry_def default_entry_def)
  have n: "GetSaveCount three_scopes = 4"
    by (simp add: ts GetSaveCount_def)
  have c: "\<forall>k. restore_composites ((\<lambda>k. restore_env flip_ok) k)"
    by (simp add: restore_composites_def flip_succeeds_def sample_defs)
  have wf0: "canvas_wf (NewCanvas translation_externals 10 False)"
    by (simp add: canvas_wf_def is_subpass_entry_def canvas_defs)
  have n0: "GetSaveCount (NewCanvas translation_externals 10 False) = 1"
    by (simp add: GetSaveCount_def canvas_defs)
  from Restore_at_root_and_RestoreToCount [OF wf c, of "restore_env flip_ok" 2]
  obtain st' where "RestoreToCount (\<lambda>k. restore_env flip_ok) 2 three_scopes = Some st'"
    and "GetSaveCount st' = min (GetSaveCount three_scopes) (max 2 1)"
    by blast
  moreover from Restore_at_root_and_RestoreToCount [OF wf0 c, of "restore_env flip_ok" 0] n0
  have "Restore (restore_env flip_ok) (NewCanvas translation_externals 10 False)
     = Some (False, NewCanvas translation_externals 10 False)"
    by blast
  ultimately show ?thesis using wf n by simp
qed

text \<open>
  C10 as it is worded fails for a count above the current one: \<open>RestoreToCount 5\<close> on
  a new canvas restores nothing and leaves the save count at 1, not at \<open>max 5 1\<close>.
\<close>

theorem RestoreToCount_not_max_counterexample:
  "map_option GetSaveCount
     (RestoreToCount (\<lambda>k. restore_env flip_ok) 5 (NewCanvas translation_externals 10 False))
   = Some 1 \<and> max 5 1 \<noteq> (1::nat)"
  by (subst RestoreToCount.simps) (simp add: GetSaveCount_def NewCanvas_def Initialize_def Let_def)

subsection \<open>Balanced sequences without a failed flip\<close>

lemma Save_pushes:
  assumes "canvas_wf st"
  shows "\<exists>st'. Save ext d st = Some st' \<and> canvas_wf st' \<and>
           GetSaveCount st' = Suc (GetSaveCount st)"
  using assms
  by (cases "transform_stack st")
     (auto simp: canvas_wf_def Save_def SkipUntilMatchingRestore_def default_entry_def
        is_subpass_entry_def GetSaveCount_def)

lemma SaveLayer_pushes:
  assumes wf: "canvas_wf st" and flip: "flip_succeeds (save_layer_flip env)"
  shows "\<exists>st'. SaveLayer ext env paint backdrop promise d distribute st = Some st' \<and>
           canvas_wf st' \<and> GetSaveCount st' = Suc (GetSaveCount st)"
proof -
  from wf obtain f0 rest where ts: "transform_stack st = f0 # rest"
    by (cases "transform_stack st") (auto simp: canvas_wf_def)
  from wf have rp: "render_passes st \<noteq> []"
    by (auto simp: canvas_wf_def)
  from GetLocalCoverageLimit_defined [OF rp] obtain r
    where lim: "GetLocalCoverageLimit (coverage_env env) st = Some r" by blast
  from FlipBackdrop_success [OF flip rp] obtain t
    where fb: "FlipBackdrop (save_layer_flip env) (render_passes st) = Some (Some t, render_passes st)"
    by blast
  show ?thesis
    using wf ts lim fb
    by (auto simp: SaveLayer_def canvas_wf_def Save_def GetSaveCount_def
          SkipUntilMatchingRestore_def default_entry_def is_subpass_entry_def
          scale_back_distributed_opacity_def Let_def
          split: option.splits)
qed

lemma Draw_keeps:
  assumes wf: "canvas_wf st"
  shows "\<exists>st' e outcome. AddRenderEntityToCurrentPass ext env entity reuse st = Some (st', e, outcome) \<and>
           canvas_wf st' \<and> GetSaveCount st' = GetSaveCount st"
proof -
  from wf obtain f0 rest where ts: "transform_stack st = f0 # rest"
    by (cases "transform_stack st") (auto simp: canvas_wf_def)
  from wf obtain p ps where rp: "render_passes st = p # ps"
    by (cases "render_passes st") (auto simp: canvas_wf_def)
  have "\<exists>r. FlipBackdrop (draw_flip env) (p # ps) = Some (r, p # ps)"
    by (auto simp: FlipBackdrop_def Let_def MakeLazyRenderingConfig_def split: option.splits)
  then obtain r where fb: "FlipBackdrop (draw_flip env) (p # ps) = Some (r, p # ps)"
    by blast
  show ?thesis
    using wf ts rp fb
    by (cases r)
       (auto simp: AddRenderEntityToCurrentPass_def canvas_wf_def Let_def GetSaveCount_def)
qed

text \<open>
  What does hold of the save count: on a well-formed canvas, in a balanced sequence of
  calls none of whose backdrop flips fails, each \<open>Save\<close> and \<open>SaveLayer\<close> (on the
  skipping, peephole and subpass paths alike) adds one frame, each \<open>Restore\<close>
  removes one, and the count after the sequence is the count before it.
\<close>

lemma balanced_run_keeps_save_count:
  assumes "balanced k ops" and "list_all flips_succeed ops" and "canvas_wf st"
    and "k < GetSaveCount st"
  shows "\<exists>st' stamps. run ext ops st = Some (st', stamps) \<and> canvas_wf st' \<and>
           GetSaveCount st' + k = GetSaveCount st"
  using assms
proof (induction ops arbitrary: k st)
  case Nil
  then show ?case by simp
next
  case (Cons op ops)
  from Cons.prems(2) have f: "flips_succeed op" and fs: "list_all flips_succeed ops"
    by auto
  show ?case
  proof (cases op)
    case (OpSave d)
    from Save_pushes [OF Cons.prems(3), of ext d] obtain st1 where
      s: "Save ext d st = Some st1" and wf1: "canvas_wf st1"
      and n1: "GetSaveCount st1 = Suc (GetSaveCount st)" by blast
    from Cons.prems(1) OpSave have b: "balanced (Suc k) ops" by simp
    from Cons.prems(4) n1 have lt: "Suc k < GetSaveCount st1" by simp
    from Cons.IH [OF b fs wf1 lt] s n1 OpSave show ?thesis by auto
  next
    case (OpSaveLayer env paint backdrop promise d distribute)
    with f have fl: "flip_succeeds (save_layer_flip env)" by simp
    from SaveLayer_pushes [OF Cons.prems(3) fl, of ext paint backdrop promise d distribute]
    obtain st1 where
      s: "SaveLayer ext env paint backdrop promise d distribute st = Some st1"
      and wf1: "canvas_wf st1"
      and n1: "GetSaveCount st1 = Suc (GetSaveCount st)" by blast
    from Cons.prems(1) OpSaveLayer have b: "balanced (Suc k) ops" by simp
    from Cons.prems(4) n1 have lt: "Suc k < GetSaveCount st1" by simp
    from Cons.IH [OF b fs wf1 lt] s n1 OpSaveLayer show ?thesis by auto
  next
    case (OpRestore env)
    with Cons.prems(1) obtain j where k: "k = Suc j" and b: "balanced j ops"
      by (cases k) auto
    from f OpRestore have c: "restore_composites env" by simp
    from Cons.prems(4) k have gt: "1 < GetSaveCount st" by simp
    from Restore_pops [OF Cons.prems(3) c gt] obtain st1 where
      s: "Restore env st = Some (True, st1)" and wf1: "canvas_wf st1"
      and n1: "GetSaveCount st1 = GetSaveCount st - 1" by blast
    from Cons.prems(4) k n1 have lt: "j < GetSaveCount st1" by simp
    from Cons.IH [OF b fs wf1 lt] s n1 k gt OpRestore show ?thesis by auto
  next
    case (OpDraw env entity reuse)
    from Draw_keeps [OF Cons.prems(3), of ext env entity reuse] obtain st1 e outcome where
      s: "AddRenderEntityToCurrentPass ext env entity reuse st = Some (st1, e, outcome)"
      and wf1: "canvas_wf st1" and n1: "GetSaveCount st1 = GetSaveCount st" by blast
    from Cons.prems(1) OpDraw have b: "balanced k ops" by simp
    from Cons.prems(4) n1 have lt: "k < GetSaveCount st1" by simp
    from Cons.IH [OF b fs wf1 lt] s n1 OpDraw show ?thesis by auto
  qed
qed


section \<open>Properties of the clip tracker\<close>

lemma DlRect_empty: "IsEmpty DlRect"
  by (simp add: DlRect_def IsEmpty_def MakeLTRB_def)

lemma rect_points_DlRect: "rect_points DlRect = {}"
  by (simp add: rect_points_def ContainsPoint_def DlRect_empty)

lemma Intersection_subset:
  "rect_points (value_or (Intersection a b) DlRect) \<subseteq> rect_points a"
  by (auto simp: value_or_def Intersection_def rect_points_def ContainsPoint_def IsEmpty_def
        MakeLTRB_def DlRect_def IntersectsWithRect_def)

lemma Intersection_Contains:
  "Contains a (value_or (Intersection a b) DlRect)"
  by (auto simp: value_or_def Intersection_def Contains_def IsEmpty_def
        MakeLTRB_def DlRect_def IntersectsWithRect_def)

lemma Contains_refl: "Contains a a"
  by (auto simp: Contains_def)

text \<open>
  C5: an intersect clip never enlarges the coverage.  For every cull rectangle,
  transform, clip rectangle and antialias flag, and whatever the matrix operations and
  the rounding compute, the cull rectangle after \<open>adjustCullRect\<close> with
  \<open>kIntersect\<close> is contained in the one before, as a set of points and in the sense
  of \<open>Rect::Contains\<close>; so the coverage after N + 1 intersecting clips is contained in
  the coverage after N.
\<close>

theorem intersect_clip_shrinks_cull_rect:
  "rect_points (cull_rect (adjustCullRect ext clip kIntersect is_aa st)) \<subseteq> rect_points (cull_rect st)
   \<and> Contains (cull_rect st) (cull_rect (adjustCullRect ext clip kIntersect is_aa st))
   \<and> rect_points (cull_rect (foldl (\<lambda>s c. adjustCullRect ext (fst c) kIntersect (snd c) s) st
                                (clips @ [(clip, is_aa)])))
       \<subseteq> rect_points (cull_rect (foldl (\<lambda>s c. adjustCullRect ext (fst c) kIntersect (snd c) s) st clips))"
proof -
  have one: "\<And>s c a. rect_points (cull_rect (adjustCullRect ext c kIntersect a s)) \<subseteq> rect_points (cull_rect s)"
    using Intersection_subset
    by (auto simp: adjustCullRect_def Let_def rect_points_DlRect)
  have two: "Contains (cull_rect st) (cull_rect (adjustCullRect ext clip kIntersect is_aa st))"
    using Intersection_Contains
    by (auto simp: adjustCullRect_def Let_def Contains_refl) (simp add: Contains_def DlRect_empty)
  from one two show ?thesis by simp
qed

lemmas tracker_defs = sample_tracker_externals_def sample_tracker_def clipRect_def clipOval_def
  clipRRect_def adjustCullRect_def rect_covers_cull_def oval_covers_cull_def
  rrect_covers_cull_def getLocalCullCorners_def CutoutOrEmpty_def Contains_def IsEmpty_def
  MakeLTRB_def DlRect_def Intersection_def IntersectsWithRect_def value_or_def Let_def

theorem intersect_clip_witness:
  "cull_rect (adjustCullRect sample_tracker_externals (MakeLTRB 60 0 200 80) kIntersect True
                (sample_tracker IdentityMatrix)) = MakeLTRB 60 50 100 80
   \<and> rect_points (MakeLTRB 60 50 100 80) \<subseteq> rect_points (MakeLTRB 50 50 100 100)"
proof -
  have e: "cull_rect (adjustCullRect sample_tracker_externals (MakeLTRB 60 0 200 80) kIntersect True
                (sample_tracker IdentityMatrix)) = MakeLTRB 60 50 100 80"
    by (simp add: tracker_defs)
  have c: "cull_rect (sample_tracker IdentityMatrix) = MakeLTRB 50 50 100 100"
    by (simp add: sample_tracker_def)
  from intersect_clip_shrinks_cull_rect
    [of sample_tracker_externals "MakeLTRB 60 0 200 80" True "sample_tracker IdentityMatrix" "[]"]
  show ?thesis unfolding e c by simp
qed

text \<open>
  C6: \<open>adjustCullRect\<close> changes nothing when the cull rectangle is already empty or
  the transform has perspective, for either operation, any clip rectangle and either
  antialias flag.
\<close>

theorem adjustCullRect_noop:
  assumes "IsEmpty (cull_rect st) \<or> HasPerspective ext (matrix st)"
  shows "adjustCullRect ext clip op is_aa st = st"
  using assms by (auto simp: adjustCullRect_def)

theorem adjustCullRect_noop_witness:
  "adjustCullRect sample_tracker_externals (MakeLTRB 0 0 10 10) kIntersect False
     (sample_tracker ZPerspectiveMatrix) = sample_tracker ZPerspectiveMatrix
   \<and> adjustCullRect sample_tracker_externals (MakeLTRB 0 0 200 200) kDifference True
     \<lparr>cull_rect = DlRect, matrix = IdentityMatrix\<rparr> = \<lparr>cull_rect = DlRect, matrix = IdentityMatrix\<rparr>"
proof -
  have p: "HasPerspective sample_tracker_externals (matrix (sample_tracker ZPerspectiveMatrix))"
    by (simp add: sample_tracker_externals_def sample_tracker_def)
  have e: "IsEmpty (cull_rect \<lparr>cull_rect = DlRect, matrix = IdentityMatrix\<rparr>)"
    by (simp add: DlRect_empty)
  from adjustCullRect_noop [of "sample_tracker ZPerspectiveMatrix" sample_tracker_externals] p
    adjustCullRect_noop [of "\<lparr>cull_rect = DlRect, matrix = IdentityMatrix\<rparr>" sample_tracker_externals] e
  show ?thesis by simp
qed








section \<open>Properties of the reactor\<close>





end
